theory Spec2Isabelle
  imports Complex_Main "HOL-Library.AList" "HOL-Library.Sublist"
begin

section \<open>RegionalEdgeSimPy: a shallow embedding\<close>

text \<open>
  The Python sources are embedded function by function. Objects become records, mutation
  becomes state passing, an exception becomes the left summand of a result. Python's
  \<open>int\<close> is \<open>int\<close>; Python's \<open>float\<close> is read as an exact real number, so rounding
  of the binary representation is not part of the model. Every random draw of the source
  (\<open>random.uniform\<close>, \<open>random.choice\<close>, \<open>uuid.uuid4\<close>) is an explicit argument.
\<close>

datatype error = ZeroDivisionError | ValueError | AttributeError | IndexError | KeyError

subsection \<open>config/config.py\<close>

record tier_config =
  num_datacenters :: nat
  cfg_cpu :: int
  cfg_memory :: int
  cfg_storage :: int
  cfg_bandwidth :: int
  cfg_latency :: int
  cfg_cost :: real
  cfg_tx_cost :: real
  cfg_distance :: int
  cfg_positions :: "(real \<times> real) list"

definition SERVER_CONFIG :: "(string \<times> tier_config) list" where
  "SERVER_CONFIG =
     [(''Edge'',
       \<lparr>num_datacenters = 3, cfg_cpu = 280000, cfg_memory = 300000, cfg_storage = 800000,
        cfg_bandwidth = 164000, cfg_latency = 5, cfg_cost = 5 / 100000,
        cfg_tx_cost = 2 / 100000, cfg_distance = 2000,
        cfg_positions = [(100, 200), (400, 800), (900, 100)]\<rparr>),
      (''Regional'',
       \<lparr>num_datacenters = 2, cfg_cpu = 6400000, cfg_memory = 10240000, cfg_storage = 40000000,
        cfg_bandwidth = 800000, cfg_latency = 50, cfg_cost = 1 / 10000,
        cfg_tx_cost = 5 / 1000000, cfg_distance = 200000,
        cfg_positions = [(250, 250), (750, 750)]\<rparr>),
      (''Cloud'',
       \<lparr>num_datacenters = 1, cfg_cpu = 100800000, cfg_memory = 80640000,
        cfg_storage = 1512000000, cfg_bandwidth = 1050000, cfg_latency = 300,
        cfg_cost = 2 / 10000, cfg_tx_cost = 5 / 1000000, cfg_distance = 2000000,
        cfg_positions = [(500, 500)]\<rparr>)]"

record workload =
  start_devices :: int
  max_devices :: int
  increment :: int
  data_per_device_kb :: int

definition WORKLOAD :: workload where
  "WORKLOAD = \<lparr>start_devices = 100, max_devices = 6000, increment = 10,
     data_per_device_kb = 10\<rparr>"

record mobility_config =
  time_step_ms :: real
  handover_latency_ms :: int
  handover_threshold_db :: real

definition MOBILITY_CONFIG :: mobility_config where
  "MOBILITY_CONFIG = \<lparr>time_step_ms = 100, handover_latency_ms = 20,
     handover_threshold_db = 3\<rparr>"

subsection \<open>mobility/random_waypoint.py\<close>

datatype rw_mode = Pause | Move

text \<open>
  The fields \<open>area\<close>, \<open>speed_range\<close> and \<open>pause_range\<close> only bound the random draws;
  the draws of one call are passed in as an \<open>rw_draw\<close>.
\<close>

record rw_draw =
  drawn_target :: "real \<times> real"
  drawn_speed :: real
  drawn_pause :: real

record random_waypoint =
  rw_state :: rw_mode
  rw_pos :: "real \<times> real"
  rw_target :: "real \<times> real"
  rw_pause_time :: real
  rw_speed :: real
  vel_x :: real
  vel_y :: real

definition hypot :: "real \<Rightarrow> real \<Rightarrow> real" where
  "hypot a b = sqrt (a * a + b * b)"

definition next_position ::
  "random_waypoint \<Rightarrow> real \<Rightarrow> rw_draw \<Rightarrow> (real \<times> real) \<times> random_waypoint" where
  "next_position rw dt_ms d =
     (let dt = dt_ms / 1000 in
      if rw_state rw = Pause then
        (let pt = rw_pause_time rw - dt in
         if pt \<le> 0 then
           (let tgt = drawn_target d;
                sp = drawn_speed d;
                dx = fst tgt - fst (rw_pos rw);
                dy = snd tgt - snd (rw_pos rw);
                dist = (if hypot dx dy = 0 then 1 else hypot dx dy)
            in (rw_pos rw,
                rw\<lparr>rw_pause_time := pt, rw_target := tgt, rw_speed := sp,
                   rw_state := Move, vel_x := sp * dx / dist, vel_y := sp * dy / dist\<rparr>))
         else (rw_pos rw, rw\<lparr>rw_pause_time := pt\<rparr>))
      else
        (let p = (fst (rw_pos rw) + vel_x rw * dt, snd (rw_pos rw) + vel_y rw * dt) in
         if hypot (fst p - fst (rw_target rw)) (snd p - snd (rw_target rw)) < 1 / 1000
         then (p, rw\<lparr>rw_pos := p, rw_state := Pause, rw_pause_time := drawn_pause d\<rparr>)
         else (p, rw\<lparr>rw_pos := p\<rparr>)))"

subsection \<open>entities/server.py\<close>

type_synonym uuid = string

text \<open>
  A reservation is the tuple \<open>(cpu, storage, memory, release_time)\<close>. The dictionary
  \<open>running_tasks\<close> is an association list in insertion order; a Python dictionary has
  no duplicate keys, which is the predicate \<open>distinct (map fst (running_tasks s))\<close>.
\<close>

type_synonym reservation = "int \<times> int \<times> int \<times> int"

record server =
  name :: string
  index :: nat
  cpu_capacity :: int
  storage_capacity :: int
  memory_capacity :: int
  bandwidth :: int
  latency :: int
  cost :: real
  tx_cost :: real
  pos_x :: real
  pos_y :: real
  location :: real
  mobility :: "random_waypoint option"
  available_cpu :: int
  available_storage :: int
  available_memory :: int
  running_tasks :: "(uuid \<times> reservation) list"
  total_data_transferred_kb :: real
  total_cost :: real

text \<open>
  \<open>Server.__init__\<close>; the position \<open>(px, py)\<close> is the entry of
  \<open>SERVER_CONFIG[tier]["positions"]\<close> the constructor reads.
\<close>

definition Server_init ::
  "string \<Rightarrow> nat \<Rightarrow> int \<Rightarrow> int \<Rightarrow> int \<Rightarrow> int \<Rightarrow> int \<Rightarrow> real \<Rightarrow> real \<Rightarrow> real \<times> real
     \<Rightarrow> random_waypoint option \<Rightarrow> server" where
  "Server_init nm idx cpu sto mem bw lat cst txc p mob =
     \<lparr>name = nm, index = idx, cpu_capacity = cpu, storage_capacity = sto,
      memory_capacity = mem, bandwidth = bw, latency = lat, cost = cst, tx_cost = txc,
      pos_x = fst p, pos_y = snd p, location = fst p, mobility = mob,
      available_cpu = cpu, available_storage = sto, available_memory = mem,
      running_tasks = [], total_data_transferred_kb = 0, total_cost = 0\<rparr>"

definition can_allocate :: "server \<Rightarrow> int \<Rightarrow> int \<Rightarrow> int \<Rightarrow> bool" where
  "can_allocate s cpu_d storage_d memory_d \<longleftrightarrow>
     available_cpu s \<ge> cpu_d \<and> available_storage s \<ge> storage_d \<and>
     available_memory s \<ge> memory_d"

text \<open>\<open>allocate\<close> returns the boolean of the source together with the server after the call.\<close>

definition allocate ::
  "workload \<Rightarrow> server \<Rightarrow> uuid \<Rightarrow> int \<Rightarrow> int \<Rightarrow> int \<Rightarrow> int \<Rightarrow> bool \<times> server" where
  "allocate w s tid cpu_d storage_d memory_d release_time =
     (if can_allocate s cpu_d storage_d memory_d then
        (let s1 = s\<lparr>available_cpu := available_cpu s - cpu_d\<rparr>;
             s2 = s1\<lparr>available_storage := available_storage s1 - storage_d\<rparr>;
             s3 = s2\<lparr>available_memory := available_memory s2 - memory_d\<rparr>;
             s4 = s3\<lparr>running_tasks :=
                    AList.update tid (cpu_d, storage_d, memory_d, release_time)
                      (running_tasks s3)\<rparr>;
             data_size_kb = data_per_device_kb w;
             s5 = s4\<lparr>total_data_transferred_kb :=
                    total_data_transferred_kb s4 + real_of_int data_size_kb\<rparr>;
             s6 = s5\<lparr>total_cost := total_cost s5
                    + (real_of_int cpu_d * cost s5 + real_of_int data_size_kb * tx_cost s5)\<rparr>
         in (True, s6))
      else (False, s))"

text \<open>
  \<open>release_completed_tasks\<close>: the keys of the due reservations are collected first, then
  each is popped and credited. \<open>pop\<close> cannot raise \<open>KeyError\<close> here, since the keys come
  from the dictionary itself and each occurs once.
\<close>

definition pop_task :: "uuid \<Rightarrow> server \<Rightarrow> server" where
  "pop_task tid s =
     (case map_of (running_tasks s) tid of
        None \<Rightarrow> s
      | Some (cpu, storage, memory, rt) \<Rightarrow>
          s\<lparr>running_tasks := AList.delete tid (running_tasks s),
            available_cpu := available_cpu s + cpu,
            available_storage := available_storage s + storage,
            available_memory := available_memory s + memory\<rparr>)"

definition is_due :: "int \<Rightarrow> uuid \<times> reservation \<Rightarrow> bool" where
  "is_due current_time e = (case e of (tid, cpu, storage, memory, rt) \<Rightarrow> current_time \<ge> rt)"

definition release_completed_tasks :: "server \<Rightarrow> int \<Rightarrow> server" where
  "release_completed_tasks s current_time =
     (let completed = map fst (filter (is_due current_time) (running_tasks s))
      in fold pop_task completed s)"

text \<open>
  Python's \<open>round(v, 2)\<close> takes the exact value of the double \<open>v\<close> to the nearest
  hundredth, ties to even; \<open>py_round2\<close> is that function on a real. Its argument is
  computed here in exact arithmetic, where the code computes a double: when the exact
  quotient is a decimal tie such as 0.005, the double of the code lies beside the tie, and
  the result of the code may differ from this one by a hundredth.
\<close>

definition round_half_even :: "real \<Rightarrow> int" where
  "round_half_even r =
     (let f = \<lfloor>r\<rfloor> in
      if r - real_of_int f < 1 / 2 then f
      else if r - real_of_int f > 1 / 2 then f + 1
      else if even f then f else f + 1)"

definition py_round2 :: "real \<Rightarrow> real" where
  "py_round2 v = real_of_int (round_half_even (v * 100)) / 100"

definition utilization :: "server \<Rightarrow> real \<times> real \<times> real" where
  "utilization s =
     (let cpu_util = (if cpu_capacity s \<noteq> 0
            then 100 * (1 - real_of_int (available_cpu s) / real_of_int (cpu_capacity s)) else 0);
          storage_util = (if storage_capacity s \<noteq> 0
            then 100 * (1 - real_of_int (available_storage s) / real_of_int (storage_capacity s))
            else 0);
          memory_util = (if memory_capacity s \<noteq> 0
            then 100 * (1 - real_of_int (available_memory s) / real_of_int (memory_capacity s))
            else 0)
      in (py_round2 cpu_util, py_round2 storage_util, py_round2 memory_util))"

text \<open>\<open>congestion\<close> divides by the bandwidth with no test; Python raises on a zero divisor.\<close>

definition congestion :: "server \<Rightarrow> error + real" where
  "congestion s =
     (if bandwidth s = 0 then Inl ZeroDivisionError
      else Inr (py_round2 ((total_data_transferred_kb s / real_of_int (bandwidth s)) * 100)))"

subsection \<open>entities/task.py\<close>

datatype task_status = Created | Scheduled | Completed | Failed

text \<open>
  The fields \<open>id\<close>, \<open>bandwidth\<close>, \<open>latency\<close> and \<open>cost\<close> of a task carry the prefix
  \<open>task_\<close>, since \<open>id\<close> is a HOL constant and the others are fields of a server.
  \<open>entity_id\<close> is the attribute the simulator attaches to each task of a round.
\<close>

record task =
  task_id :: uuid
  cpu_demand :: int
  storage_demand :: int
  memory_demand :: int
  task_bandwidth :: int
  task_latency :: "int option"
  priority :: int
  flag :: int
  server_assigned :: "string option"
  assigned_server :: "string option"
  data_size_kb :: int
  execution_start_time :: "int option"
  execution_end_time :: "int option"
  status :: task_status
  delay :: real
  task_cost :: real
  energy :: real
  entity_id :: "nat option"

definition Task_init ::
  "workload \<Rightarrow> uuid \<Rightarrow> int \<Rightarrow> int \<Rightarrow> int \<Rightarrow> int \<Rightarrow> int option \<Rightarrow> int \<Rightarrow> task" where
  "Task_init w fresh_id cpu_d storage_d memory_d bw lat prio =
     \<lparr>task_id = fresh_id, cpu_demand = cpu_d, storage_demand = storage_d,
      memory_demand = memory_d, task_bandwidth = bw, task_latency = lat,
      priority = prio, flag = prio, server_assigned = None, assigned_server = None,
      data_size_kb = data_per_device_kb w, execution_start_time = None,
      execution_end_time = None, status = Created, delay = 0, task_cost = 0, energy = 0,
      entity_id = None\<rparr>"

definition set_server :: "task \<Rightarrow> string \<Rightarrow> task" where
  "set_server t server_name = t\<lparr>assigned_server := Some server_name, status := Scheduled\<rparr>"

definition is_assigned :: "task \<Rightarrow> bool" where
  "is_assigned t \<longleftrightarrow> server_assigned t \<noteq> None"

definition complete :: "task \<Rightarrow> int \<Rightarrow> int \<Rightarrow> task" where
  "complete t start_time end_time =
     t\<lparr>execution_start_time := Some start_time, execution_end_time := Some end_time,
       status := Completed\<rparr>"

definition fail :: "task \<Rightarrow> task" where
  "fail t = t\<lparr>status := Failed\<rparr>"

subsection \<open>workload/generator.py\<close>

record workload_generator =
  gen_start_devices :: int
  gen_max_devices :: int
  gen_increment :: int
  gen_data_per_device_kb :: int

definition WorkloadGenerator_init :: "workload \<Rightarrow> workload_generator" where
  "WorkloadGenerator_init w =
     \<lparr>gen_start_devices = start_devices w, gen_max_devices = max_devices w,
      gen_increment = increment w, gen_data_per_device_kb = data_per_device_kb w\<rparr>"

text \<open>
  \<open>generate_tasks\<close>: \<open>fresh_ids\<close> and \<open>prios\<close> give the \<open>uuid4\<close> and the
  \<open>random.choice([1, 2, 3])\<close> of each device; \<open>range(n)\<close> is empty for \<open>n \<le> 0\<close>.
\<close>

definition generate_tasks ::
  "workload \<Rightarrow> workload_generator \<Rightarrow> int \<Rightarrow> (nat \<Rightarrow> uuid) \<Rightarrow> (nat \<Rightarrow> int) \<Rightarrow> task list" where
  "generate_tasks w g round_no fresh_ids prios =
     (let current_devices = gen_start_devices g + (round_no - 1) * gen_increment g;
          current_devices = (if current_devices > gen_max_devices g then gen_max_devices g
                             else current_devices)
      in map (\<lambda>device_id.
                Task_init w (fresh_ids device_id) (gen_data_per_device_kb g)
                  (gen_data_per_device_kb g) (gen_data_per_device_kb g)
                  (gen_data_per_device_kb g) None (prios device_id))
           [0 ..< nat current_devices])"

subsection \<open>mobility/mobile_entity.py\<close>

datatype position = Scalar real | Point real real

text \<open>
  \<open>attached_server\<close> is a reference to one of the server objects of the simulator; it is
  the index of that server in the server list, which the simulator never reorders.
\<close>

record mobile_entity =
  ent_id :: nat
  position :: position
  speed :: real
  attached_server :: "nat option"
  ho_latency :: int
  ho_threshold_db :: real
  ent_mobility :: "random_waypoint option"

definition MobileEntity_init :: "mobility_config \<Rightarrow> nat \<Rightarrow> position \<Rightarrow> real \<Rightarrow> mobile_entity" where
  "MobileEntity_init mc eid init_pos spd =
     \<lparr>ent_id = eid, position = init_pos, speed = spd, attached_server = None,
      ho_latency = handover_latency_ms mc, ho_threshold_db = handover_threshold_db mc,
      ent_mobility = None\<rparr>"

definition move :: "mobile_entity \<Rightarrow> real \<Rightarrow> mobile_entity" where
  "move e dt_ms =
     (case position e of
        Scalar p \<Rightarrow> e\<lparr>position := Scalar (p + speed e * (dt_ms / 1000))\<rparr>
      | Point px py \<Rightarrow> e)"

definition signal_strength :: "mobile_entity \<Rightarrow> server \<Rightarrow> real" where
  "signal_strength e srv =
     (let dist = (case position e of
                    Point px py \<Rightarrow> hypot (px - pos_x srv) (py - pos_y srv)
                  | Scalar p \<Rightarrow> \<bar>p - location srv\<bar>)
      in - 20 * log 10 (max dist 1))"

text \<open>Python's \<open>max(xs, key=k)\<close> and \<open>min(xs, key=k)\<close> keep the first extremal element.\<close>

fun py_max_by :: "('a \<Rightarrow> 'k::linorder) \<Rightarrow> 'a \<Rightarrow> 'a list \<Rightarrow> 'a" where
  "py_max_by k best [] = best"
| "py_max_by k best (v # vs) = (if k v > k best then py_max_by k v vs else py_max_by k best vs)"

fun py_min_by :: "('a \<Rightarrow> 'k::linorder) \<Rightarrow> 'a \<Rightarrow> 'a list \<Rightarrow> 'a" where
  "py_min_by k best [] = best"
| "py_min_by k best (v # vs) = (if k v < k best then py_min_by k v vs else py_min_by k best vs)"

text \<open>\<open>pick_best_bs\<close> returns the reference (index) of the chosen server; \<open>max\<close> of an empty
  list raises \<open>ValueError\<close>.\<close>

definition best_server :: "mobile_entity \<Rightarrow> server list \<Rightarrow> error + nat" where
  "best_server e servers =
     (case List.enumerate 0 servers of
        [] \<Rightarrow> Inl ValueError
      | p # ps \<Rightarrow> Inr (fst (py_max_by (\<lambda>q. signal_strength e (snd q)) p ps)))"

definition pick_best_bs :: "mobile_entity \<Rightarrow> server list \<Rightarrow> error + nat" where
  "pick_best_bs e servers =
     (case best_server e servers of
        Inl err \<Rightarrow> Inl err
      | Inr best \<Rightarrow>
          (case attached_server e of
             None \<Rightarrow> Inr best
           | Some a \<Rightarrow>
               if signal_strength e (servers ! best) - signal_strength e (servers ! a)
                    \<ge> ho_threshold_db e
               then Inr best else Inr a))"

definition handover :: "mobile_entity \<Rightarrow> nat \<Rightarrow> int \<times> mobile_entity" where
  "handover e new_server = (ho_latency e, e\<lparr>attached_server := Some new_server\<rparr>)"

subsection \<open>mobility/manager.py\<close>

text \<open>
  The manager and the simulator share one list of server objects, so \<open>update_all\<close> takes the
  servers and returns them moved. \<open>update_entity\<close> is the body of the loop over the
  entities; its boolean tells whether the handover branch was taken.
\<close>

record mobility_manager =
  entities :: "mobile_entity list"
  ho_count :: int
  ho_delay :: int
  mgr_time_step_ms :: real

definition MobilityManager_init :: "mobility_config \<Rightarrow> mobile_entity list \<Rightarrow> mobility_manager" where
  "MobilityManager_init mc devices =
     \<lparr>entities = devices, ho_count = 0, ho_delay = 0, mgr_time_step_ms = time_step_ms mc\<rparr>"

definition move_server :: "real \<Rightarrow> rw_draw \<Rightarrow> server \<Rightarrow> server" where
  "move_server dt_ms d srv =
     (case mobility srv of
        None \<Rightarrow> srv
      | Some rw \<Rightarrow>
          (let (p, rw') = next_position rw dt_ms d
           in srv\<lparr>pos_x := fst p, pos_y := snd p, location := fst p, mobility := Some rw'\<rparr>))"

definition move_entity :: "real \<Rightarrow> rw_draw \<Rightarrow> mobile_entity \<Rightarrow> mobile_entity" where
  "move_entity dt_ms d e =
     (case ent_mobility e of
        Some rw \<Rightarrow>
          (let (p, rw') = next_position rw dt_ms d
           in e\<lparr>position := Point (fst p) (snd p), ent_mobility := Some rw'\<rparr>)
      | None \<Rightarrow> move e dt_ms)"

definition update_entity ::
  "mobility_config \<Rightarrow> server list \<Rightarrow> mobile_entity \<Rightarrow> error + (mobile_entity \<times> bool)" where
  "update_entity mc servers e =
     (case pick_best_bs e servers of
        Inl err \<Rightarrow> Inl err
      | Inr new_bs \<Rightarrow>
          (case attached_server e of
             None \<Rightarrow> Inr (e\<lparr>attached_server := Some new_bs\<rparr>, False)
           | Some a \<Rightarrow>
               if new_bs \<noteq> a then
                 (let old_sig = signal_strength e (servers ! a);
                      new_sig = signal_strength e (servers ! new_bs);
                      delta = new_sig - old_sig
                  in if delta \<ge> handover_threshold_db mc
                     then Inr (e\<lparr>attached_server := Some new_bs\<rparr>, True)
                     else Inr (e, False))
               else Inr (e, False)))"

fun update_entities ::
  "mobility_config \<Rightarrow> real \<Rightarrow> server list \<Rightarrow> (nat \<times> mobile_entity) list \<Rightarrow> (nat \<Rightarrow> rw_draw)
     \<Rightarrow> int \<Rightarrow> int \<Rightarrow> error + (mobile_entity list \<times> int \<times> int)" where
  "update_entities mc dt_ms servers [] ed cnt dly = Inr ([], cnt, dly)"
| "update_entities mc dt_ms servers ((j, ent) # rest) ed cnt dly =
     (case update_entity mc servers (move_entity dt_ms (ed j) ent) of
        Inl err \<Rightarrow> Inl err
      | Inr (ent', fired) \<Rightarrow>
          (case update_entities mc dt_ms servers rest ed
                  (if fired then cnt + 1 else cnt)
                  (if fired then dly + handover_latency_ms mc else dly) of
             Inl err \<Rightarrow> Inl err
           | Inr (rest', cnt', dly') \<Rightarrow> Inr (ent' # rest', cnt', dly')))"

definition update_all ::
  "mobility_config \<Rightarrow> mobility_manager \<Rightarrow> server list \<Rightarrow> (nat \<Rightarrow> rw_draw) \<Rightarrow> (nat \<Rightarrow> rw_draw)
     \<Rightarrow> error + ((int \<times> int) \<times> mobility_manager \<times> server list)" where
  "update_all mc mgr servers sd ed =
     (let servers' = map (\<lambda>(i, srv). move_server (mgr_time_step_ms mgr) (sd i) srv)
                         (List.enumerate 0 servers)
      in case update_entities mc (mgr_time_step_ms mgr) servers'
                (List.enumerate 0 (entities mgr)) ed (ho_count mgr) (ho_delay mgr) of
           Inl err \<Rightarrow> Inl err
         | Inr (ents', cnt, dly) \<Rightarrow>
             Inr ((cnt, dly), mgr\<lparr>entities := ents', ho_count := cnt, ho_delay := dly\<rparr>, servers'))"

subsection \<open>scheduler/rule_scheduler.py\<close>

text \<open>
  A pair of the result list is \<open>(task, server)\<close>, where \<open>server\<close> is a reference to a
  server object or Python's \<open>None\<close>: here a task with the index of the server, if any.
  \<open>try_tier\<close> is the block the source repeats for Edge, Regional and Cloud.
\<close>

definition eligible :: "string \<Rightarrow> task \<Rightarrow> server list \<Rightarrow> (nat \<times> server) list" where
  "eligible tier t servers =
     filter (\<lambda>(i, s). prefix tier (name s) \<and>
                can_allocate s (cpu_demand t) (storage_demand t) (memory_demand t))
       (List.enumerate 0 servers)"

definition load_key :: "nat \<times> server \<Rightarrow> int" where
  "load_key q = available_cpu (snd q) + available_memory (snd q) + available_storage (snd q)"

definition try_tier ::
  "workload \<Rightarrow> string \<Rightarrow> task \<Rightarrow> int \<Rightarrow> server list \<Rightarrow> (nat \<times> server list) option" where
  "try_tier w tier t current_time servers =
     (case eligible tier t servers of
        [] \<Rightarrow> None
      | p # ps \<Rightarrow>
          (let (i, selected) = py_min_by load_key p ps;
               release_time = current_time + latency selected;
               (ok, selected') = allocate w selected (task_id t) (cpu_demand t)
                                   (storage_demand t) (memory_demand t) release_time
           in Some (i, servers[i := selected'])))"

definition schedule_task ::
  "workload \<Rightarrow> task \<Rightarrow> int \<Rightarrow> server list \<Rightarrow> nat option \<times> server list" where
  "schedule_task w t current_time servers =
     (case try_tier w ''Edge'' t current_time servers of
        Some (i, servers') \<Rightarrow> (Some i, servers')
      | None \<Rightarrow>
          (case try_tier w ''Regional'' t current_time servers of
             Some (i, servers') \<Rightarrow> (Some i, servers')
           | None \<Rightarrow>
               (case try_tier w ''Cloud'' t current_time servers of
                  Some (i, servers') \<Rightarrow> (Some i, servers')
                | None \<Rightarrow> (None, servers))))"

fun schedule ::
  "workload \<Rightarrow> task list \<Rightarrow> server list \<Rightarrow> int \<Rightarrow> (task \<times> nat option) list \<times> server list" where
  "schedule w [] servers current_time = ([], servers)"
| "schedule w (t # ts) servers current_time =
     (let (server, servers1) = schedule_task w t current_time servers;
          (results, servers2) = schedule w ts servers1 current_time
      in ((t, server) # results, servers2))"

subsection \<open>core/simulator.py\<close>

text \<open>
  \<open>apply_assignments\<close> is the loop "Mark tasks as completed and update server resource
  availability" of \<open>Simulator.run\<close>. Reading \<open>srv.latency\<close> of \<open>None\<close> raises
  \<open>AttributeError\<close>.
\<close>

fun apply_assignments ::
  "int \<Rightarrow> (task \<times> nat option) list \<Rightarrow> server list
     \<Rightarrow> error + ((task \<times> nat option) list \<times> server list)" where
  "apply_assignments current_time [] servers = Inr ([], servers)"
| "apply_assignments current_time ((t, None) # rest) servers = Inl AttributeError"
| "apply_assignments current_time ((t, Some i) # rest) servers =
     (let srv = servers ! i;
          t' = complete t current_time (current_time + latency srv);
          srv1 = srv\<lparr>available_cpu := max (available_cpu srv - cpu_demand t) 0\<rparr>;
          srv2 = srv1\<lparr>available_storage := max (available_storage srv1 - data_size_kb t) 0\<rparr>;
          mem_req = memory_demand t;
          srv3 = srv2\<lparr>available_memory := max (available_memory srv2 - mem_req) 0\<rparr>
      in case apply_assignments current_time rest (servers[i := srv3]) of
           Inl err \<Rightarrow> Inl err
         | Inr (rest', servers') \<Rightarrow> Inr ((t', Some i) # rest', servers'))"

text \<open>
  The metrics step of the loop hands one row per server to the reporter. The numbers of a
  row are output and play no part in the state, so the step is modelled by what it can
  raise, in the order of the source: for every server with placements, per task the lookup
  of the device by \<open>entity_id\<close> (\<open>IndexError\<close>) and \<open>calculate_transmission_delay\<close>
  of \<open>config/metrics.py\<close> (\<open>KeyError\<close> for a tier that \<open>SERVER_CONFIG\<close> lacks, a division
  by the configured bandwidth); then the divisions by the server's CPU, memory and storage
  capacity and, in \<open>calculate_congestion\<close>, by its bandwidth. The later lookups of
  \<open>SERVER_CONFIG\<close> read the entry the first one found. \<open>None\<close> says that nothing was raised.
\<close>

definition extract_base_layer :: "string \<Rightarrow> string" where
  "extract_base_layer layer_name =
     (if CHR ''_'' \<in> set layer_name then takeWhile (\<lambda>ch. ch \<noteq> CHR ''_'') layer_name
      else layer_name)"

definition calculate_transmission_delay :: "int \<Rightarrow> string \<Rightarrow> error + real" where
  "calculate_transmission_delay data_kb layer_name =
     (case map_of SERVER_CONFIG (extract_base_layer layer_name) of
        None \<Rightarrow> Inl KeyError
      | Some cfg \<Rightarrow>
          if cfg_bandwidth cfg = 0 then Inl ZeroDivisionError
          else Inr (real_of_int (data_kb * 8) / real_of_int (cfg_bandwidth cfg) * 1000))"

fun first_raised :: "('a \<Rightarrow> error option) \<Rightarrow> 'a list \<Rightarrow> error option" where
  "first_raised f [] = None"
| "first_raised f (v # vs) =
     (case f v of Some err \<Rightarrow> Some err | None \<Rightarrow> first_raised f vs)"

definition task_metrics :: "mobile_entity list \<Rightarrow> server \<Rightarrow> task \<Rightarrow> error option" where
  "task_metrics ents srv t =
     (case entity_id t of
        None \<Rightarrow> Some AttributeError
      | Some i \<Rightarrow>
          if length ents \<le> i then Some IndexError
          else (case calculate_transmission_delay (data_size_kb t) (name srv) of
                  Inl err \<Rightarrow> Some err
                | Inr tx_delay \<Rightarrow> None))"

definition server_metrics ::
  "mobile_entity list \<Rightarrow> (task \<times> nat option) list \<Rightarrow> nat \<times> server \<Rightarrow> error option" where
  "server_metrics ents assignments q =
     (let srv = snd q;
          assigned_here = map fst (filter (\<lambda>(t, s). s = Some (fst q)) assignments)
      in if assigned_here = [] then None
         else (case first_raised (task_metrics ents srv) assigned_here of
                 Some err \<Rightarrow> Some err
               | None \<Rightarrow>
                   if cpu_capacity srv = 0 then Some ZeroDivisionError
                   else if memory_capacity srv = 0 then Some ZeroDivisionError
                   else if storage_capacity srv = 0 then Some ZeroDivisionError
                   else if bandwidth srv = 0 then Some ZeroDivisionError
                   else None))"

definition report_metrics ::
  "mobile_entity list \<Rightarrow> (task \<times> nat option) list \<Rightarrow> server list \<Rightarrow> error option" where
  "report_metrics ents assignments srvs =
     first_raised (server_metrics ents assignments) (List.enumerate 0 srvs)"

record simulator =
  current_time :: int
  servers :: "server list"
  tasks :: "task list"
  generator :: workload_generator
  sim_mobility :: mobility_manager

record round_draws =
  server_draws :: "nat \<Rightarrow> rw_draw"
  entity_draws :: "nat \<Rightarrow> rw_draw"
  drawn_ids :: "nat \<Rightarrow> uuid"
  drawn_priorities :: "nat \<Rightarrow> int"

text \<open>
  One iteration of the loop of \<open>Simulator.run\<close> with the rule-based scheduler. The result
  carries the simulator after the round and \<open>failed_count\<close>. An exception of the
  metrics step ends the round before the clock advances.
\<close>

definition run_round ::
  "workload \<Rightarrow> mobility_config \<Rightarrow> simulator \<Rightarrow> int \<Rightarrow> round_draws \<Rightarrow> error + (simulator \<times> int)" where
  "run_round w mc sim round_no d =
     (case update_all mc (sim_mobility sim) (servers sim) (server_draws d) (entity_draws d) of
        Inl err \<Rightarrow> Inl err
      | Inr ((ho_cnt, ho_dly), mgr', servers1) \<Rightarrow>
          (let now = current_time sim + ho_dly;
               servers2 = map (\<lambda>srv. release_completed_tasks srv now) servers1;
               new_tasks = map (\<lambda>(idx, t). t\<lparr>entity_id := Some idx\<rparr>)
                             (List.enumerate 0
                                (generate_tasks w (generator sim) round_no
                                   (drawn_ids d) (drawn_priorities d)));
               num_devices = int (length new_tasks);
               (assignments, servers3) = schedule w new_tasks servers2 now;
               initial_count = num_devices;
               assigned_count = int (length assignments);
               failed_count = initial_count - assigned_count
           in case apply_assignments now assignments servers3 of
                Inl err \<Rightarrow> Inl err
              | Inr (done, servers4) \<Rightarrow>
                  (case report_metrics (entities mgr') done servers4 of
                     Some err \<Rightarrow> Inl err
                   | None \<Rightarrow>
                       Inr (sim\<lparr>current_time := now + 1, servers := servers4,
                                tasks := filter (\<lambda>t. \<not> is_assigned t) (map fst done),
                                sim_mobility := mgr'\<rparr>,
                            failed_count))))"

fun run_rounds ::
  "workload \<Rightarrow> mobility_config \<Rightarrow> (int \<Rightarrow> round_draws) \<Rightarrow> int list \<Rightarrow> simulator
     \<Rightarrow> error + simulator" where
  "run_rounds w mc dr [] sim = Inr sim"
| "run_rounds w mc dr (round_no # rest) sim =
     (case run_round w mc sim round_no (dr round_no) of
        Inl err \<Rightarrow> Inl err
      | Inr (sim', failed_count) \<Rightarrow> run_rounds w mc dr rest sim')"

definition run ::
  "workload \<Rightarrow> mobility_config \<Rightarrow> (int \<Rightarrow> round_draws) \<Rightarrow> simulator \<Rightarrow> error + simulator" where
  "run w mc dr sim =
     (if increment w = 0 then Inl ZeroDivisionError
      else (let total_rounds = (max_devices w - start_devices w) div increment w + 1
            in run_rounds w mc dr [1 .. total_rounds] sim))"

subsection \<open>Notions used in the statements\<close>

text \<open>The three quantities a reservation holds, and the ledger invariant of a server.\<close>

definition cpu_of :: "uuid \<times> reservation \<Rightarrow> int" where
  "cpu_of e = fst (snd e)"

definition storage_of :: "uuid \<times> reservation \<Rightarrow> int" where
  "storage_of e = fst (snd (snd e))"

definition memory_of :: "uuid \<times> reservation \<Rightarrow> int" where
  "memory_of e = fst (snd (snd (snd e)))"

definition ledger_inv :: "server \<Rightarrow> bool" where
  "ledger_inv s \<longleftrightarrow>
     available_cpu s = cpu_capacity s - sum_list (map cpu_of (running_tasks s)) \<and>
     available_storage s = storage_capacity s - sum_list (map storage_of (running_tasks s)) \<and>
     available_memory s = memory_capacity s - sum_list (map memory_of (running_tasks s)) \<and>
     0 \<le> available_cpu s \<and> available_cpu s \<le> cpu_capacity s \<and>
     0 \<le> available_storage s \<and> available_storage s \<le> storage_capacity s \<and>
     0 \<le> available_memory s \<and> available_memory s \<le> memory_capacity s"

definition nonneg_reservations :: "server \<Rightarrow> bool" where
  "nonneg_reservations s \<longleftrightarrow>
     list_all (\<lambda>e. 0 \<le> cpu_of e \<and> 0 \<le> storage_of e \<and> 0 \<le> memory_of e) (running_tasks s)"

text \<open>A sequence of \<open>allocate\<close> calls on one server, with the number of calls that succeeded.\<close>

fun allocate_seq :: "workload \<Rightarrow> server \<Rightarrow> (uuid \<times> reservation) list \<Rightarrow> nat \<times> server" where
  "allocate_seq w s [] = (0, s)"
| "allocate_seq w s ((tid, cpu_d, storage_d, memory_d, rt) # reqs) =
     (let (ok, s') = allocate w s tid cpu_d storage_d memory_d rt;
          (n, s'') = allocate_seq w s' reqs
      in ((if ok then 1 else 0) + n, s''))"

text \<open>The CPU demand admitted by the same sequence of calls.\<close>

fun admitted_cpu :: "workload \<Rightarrow> server \<Rightarrow> (uuid \<times> reservation) list \<Rightarrow> int" where
  "admitted_cpu w s [] = 0"
| "admitted_cpu w s ((tid, cpu_d, storage_d, memory_d, rt) # reqs) =
     (let (ok, s') = allocate w s tid cpu_d storage_d memory_d rt
      in (if ok then cpu_d else 0) + admitted_cpu w s' reqs)"

text \<open>The number of entities that take the handover branch in one call of \<open>update_all\<close>.\<close>

definition handover_fires :: "mobility_config \<Rightarrow> server list \<Rightarrow> mobile_entity \<Rightarrow> bool" where
  "handover_fires mc srvs e =
     (case update_entity mc srvs e of Inl err \<Rightarrow> False | Inr (e', fired) \<Rightarrow> fired)"

definition handovers_this_round ::
  "mobility_config \<Rightarrow> mobility_manager \<Rightarrow> server list \<Rightarrow> (nat \<Rightarrow> rw_draw) \<Rightarrow> (nat \<Rightarrow> rw_draw)
     \<Rightarrow> nat" where
  "handovers_this_round mc mgr srvs sd ed =
     (let srvs' = map (\<lambda>(i, srv). move_server (mgr_time_step_ms mgr) (sd i) srv)
                         (List.enumerate 0 srvs)
      in length (filter (\<lambda>(j, ent). handover_fires mc srvs'
                                      (move_entity (mgr_time_step_ms mgr) (ed j) ent))
                   (List.enumerate 0 (entities mgr))))"

subsection \<open>Concrete inputs\<close>

text \<open>
  \<open>Edge_1\<close> is the first edge server of \<open>SERVER_CONFIG\<close> with server mobility switched
  off; \<open>small_edge\<close> is the same server configured with five units of each resource.
  \<open>task_0\<close> and \<open>task_1\<close> are tasks as the generator builds them under \<open>WORKLOAD\<close>.
\<close>

definition Edge_1 :: server where
  "Edge_1 = Server_init ''Edge_1'' 0 280000 800000 300000 164000 5 (5 / 100000) (2 / 100000)
              (100, 200) None"

definition small_edge :: server where
  "small_edge = Server_init ''Edge_1'' 0 5 5 5 164000 5 (5 / 100000) (2 / 100000)
                  (100, 200) None"

definition task_0 :: task where
  "task_0 = Task_init WORKLOAD ''task-0'' 10 10 10 10 None 1"

definition task_1 :: task where
  "task_1 = Task_init WORKLOAD ''task-1'' 10 10 10 10 None 1"

text \<open>A workload of one device per round, and a simulator with one server and one device.\<close>

definition one_device :: workload where
  "one_device = \<lparr>start_devices = 1, max_devices = 1, increment = 1, data_per_device_kb = 10\<rparr>"

definition resting :: random_waypoint where
  "resting = \<lparr>rw_state = Pause, rw_pos = (100, 200), rw_target = (300, 400),
      rw_pause_time = 1, rw_speed = 0, vel_x = 0, vel_y = 0\<rparr>"

definition device_near_edge :: mobile_entity where
  "device_near_edge =
     (MobileEntity_init MOBILITY_CONFIG 0 (Point 100 200) 15)
       \<lparr>attached_server := Some 0, ent_mobility := Some resting\<rparr>"

definition sim_with :: "server \<Rightarrow> simulator" where
  "sim_with srv =
     \<lparr>current_time = 0, servers = [srv], tasks = [],
      generator = WorkloadGenerator_init one_device,
      sim_mobility = MobilityManager_init MOBILITY_CONFIG [device_near_edge]\<rparr>"

definition no_draw :: rw_draw where
  "no_draw = \<lparr>drawn_target = (300, 400), drawn_speed = 1, drawn_pause = 1\<rparr>"

definition draws_1 :: round_draws where
  "draws_1 = \<lparr>server_draws = (\<lambda>i. no_draw), entity_draws = (\<lambda>i. no_draw),
      drawn_ids = (\<lambda>i. ''task-1''), drawn_priorities = (\<lambda>i. 1)\<rparr>"

text \<open>
  Two nodes on the line \<open>x = 0\<close> and a device at the origin that does not move: node A at
  distance 1 (signal 0), node B at distance 100 (signal \<open>-40\<close>).
\<close>

definition node_A :: server where
  "node_A = Server_init ''Edge_1'' 0 280000 800000 300000 164000 5 (5 / 100000) (2 / 100000)
              (0, 1) None"

definition node_B :: server where
  "node_B = Server_init ''Edge_2'' 1 280000 800000 300000 164000 5 (5 / 100000) (2 / 100000)
              (0, 100) None"

definition device_at_origin :: "nat option \<Rightarrow> mobile_entity" where
  "device_at_origin att =
     (MobileEntity_init MOBILITY_CONFIG 0 (Point 0 0) 15)\<lparr>attached_server := att\<rparr>"

definition manager_of :: "mobile_entity \<Rightarrow> mobility_manager" where
  "manager_of e = MobilityManager_init MOBILITY_CONFIG [e]"

text \<open>\<open>Edge_1\<close> after admitting \<open>task_0\<close> at time 0, released at time 5.\<close>

definition busy_edge :: server where
  "busy_edge = snd (allocate WORKLOAD Edge_1 ''task-0'' 10 10 10 5)"

text \<open>\<open>Edge_1\<close> after the scheduler admitted \<open>task_1\<close> at time 0.\<close>

definition admitted_edge :: server where
  "admitted_edge = snd (allocate WORKLOAD Edge_1 ''task-1'' 10 10 10 5)"

text \<open>\<open>update_all\<close> called \<open>n\<close> times in a row, as the rounds of the loop do.\<close>

fun update_all_n ::
  "nat \<Rightarrow> mobility_config \<Rightarrow> mobility_manager \<Rightarrow> server list \<Rightarrow> (nat \<Rightarrow> rw_draw)
     \<Rightarrow> (nat \<Rightarrow> rw_draw) \<Rightarrow> error + (mobility_manager \<times> server list)" where
  "update_all_n 0 mc mgr srvs sd ed = Inr (mgr, srvs)"
| "update_all_n (Suc n) mc mgr srvs sd ed =
     (case update_all mc mgr srvs sd ed of
        Inl err \<Rightarrow> Inl err
      | Inr (totals, mgr', srvs') \<Rightarrow> update_all_n n mc mgr' srvs' sd ed)"

text \<open>
  A simulator on the two nodes whose single device starts attached to node B, the draws of
  its rounds, and node A after the scheduler admitted the task of round 1 at time 20.
\<close>

definition sim_two_nodes :: simulator where
  "sim_two_nodes =
     \<lparr>current_time = 0, servers = [node_A, node_B], tasks = [],
      generator = WorkloadGenerator_init one_device,
      sim_mobility = manager_of (device_at_origin (Some 1))\<rparr>"

definition draws_of_round :: "int \<Rightarrow> round_draws" where
  "draws_of_round r =
     \<lparr>server_draws = (\<lambda>i. no_draw), entity_draws = (\<lambda>i. no_draw),
      drawn_ids = (\<lambda>i. if r = 1 then ''task-1'' else ''task-2''),
      drawn_priorities = (\<lambda>i. 1)\<rparr>"

definition node_A1 :: server where
  "node_A1 = snd (allocate one_device node_A ''task-1'' 10 10 10 25)"

section \<open>Properties\<close>

subsection \<open>The resource ledger\<close>

lemma allocate_success:
  "can_allocate s c st m \<Longrightarrow>
   allocate w s tid c st m rt =
     (True, s\<lparr>available_cpu := available_cpu s - c,
              available_storage := available_storage s - st,
              available_memory := available_memory s - m,
              running_tasks := AList.update tid (c, st, m, rt) (running_tasks s),
              total_data_transferred_kb :=
                total_data_transferred_kb s + real_of_int (data_per_device_kb w),
              total_cost := total_cost s
                + (real_of_int c * cost s + real_of_int (data_per_device_kb w) * tx_cost s)\<rparr>)"
  by (simp add: allocate_def Let_def)

lemma allocate_failure: "\<not> can_allocate s c st m \<Longrightarrow> allocate w s tid c st m rt = (False, s)"
  by (simp add: allocate_def)

lemma filter_key_distinct:
  "distinct (map fst al) \<Longrightarrow> map_of al k = Some v \<Longrightarrow> filter (\<lambda>e. fst e = k) al = [(k, v)]"
proof (induction al)
  case Nil
  then show ?case by simp
next
  case (Cons a al)
  show ?case
  proof (cases "fst a = k")
    case True
    with Cons.prems have "a = (k, v)" by (cases a) simp
    moreover from Cons.prems True have "k \<notin> fst ` set al" by auto
    then have "filter (\<lambda>e. fst e = k) al = []"
      by (induction al) auto
    ultimately show ?thesis by simp
  next
    case False
    with Cons show ?thesis by (cases a) auto
  qed
qed

lemma sum_filter_key_split:
  fixes f :: "'k \<times> 'v \<Rightarrow> int"
  assumes "distinct (map fst al)" and "map_of al k = Some v"
  shows "sum_list (map f (filter (\<lambda>e. fst e = k \<or> P e) al))
           = f (k, v) + sum_list (map f (filter (\<lambda>e. P e) (filter (\<lambda>e. fst e \<noteq> k) al)))"
  using assms
proof (induction al)
  case Nil
  then show ?case by simp
next
  case (Cons a al)
  show ?case
  proof (cases "fst a = k")
    case True
    with Cons.prems have a: "a = (k, v)" by (cases a) simp
    from Cons.prems True have "k \<notin> fst ` set al" by auto
    then have "filter (\<lambda>e. fst e = k \<or> P e) al = filter P (filter (\<lambda>e. fst e \<noteq> k) al)"
      by (induction al) auto
    with True a show ?thesis by simp
  next
    case False
    with Cons show ?thesis by (cases a) auto
  qed
qed

lemma fold_pop_task:
  "distinct (map fst (running_tasks s)) \<Longrightarrow> distinct ks \<Longrightarrow> set ks \<subseteq> fst ` set (running_tasks s) \<Longrightarrow>
   fold pop_task ks s =
     s\<lparr>running_tasks := filter (\<lambda>e. fst e \<notin> set ks) (running_tasks s),
       available_cpu := available_cpu s
          + sum_list (map cpu_of (filter (\<lambda>e. fst e \<in> set ks) (running_tasks s))),
       available_storage := available_storage s
          + sum_list (map storage_of (filter (\<lambda>e. fst e \<in> set ks) (running_tasks s))),
       available_memory := available_memory s
          + sum_list (map memory_of (filter (\<lambda>e. fst e \<in> set ks) (running_tasks s)))\<rparr>"
proof (induction ks arbitrary: s)
  case Nil
  then show ?case by simp
next
  case (Cons k ks)
  let ?al = "running_tasks s"
  from Cons.prems obtain v where v: "map_of ?al k = Some v"
  proof -
    from Cons.prems(3) have "k \<in> fst ` set ?al" by simp
    then obtain e where "e \<in> set ?al" "fst e = k" by auto
    then have "(k, snd e) \<in> set ?al" by auto
    with Cons.prems(1) have "map_of ?al k = Some (snd e)" by (rule map_of_is_SomeI)
    then show ?thesis by (rule that)
  qed
  obtain c st m rt where vv: "v = (c, st, m, rt)" by (cases v) auto
  let ?s1 = "pop_task k s"
  have s1: "?s1 = s\<lparr>running_tasks := AList.delete k ?al,
            available_cpu := available_cpu s + c,
            available_storage := available_storage s + st,
            available_memory := available_memory s + m\<rparr>"
    using v vv by (simp add: pop_task_def)
  have del: "AList.delete k ?al = filter (\<lambda>e. fst e \<noteq> k) ?al"
    unfolding AList.delete_eq by (rule filter_cong) auto
  have d1: "distinct (map fst (running_tasks ?s1))"
    using Cons.prems(1) by (simp add: s1 distinct_delete)
  have k1: "set ks \<subseteq> fst ` set (running_tasks ?s1)"
  proof
    fix q assume q: "q \<in> set ks"
    with Cons.prems(3) obtain e where e: "e \<in> set ?al" "fst e = q" by auto
    from q Cons.prems(2) have "q \<noteq> k" by auto
    with e have "e \<in> set (filter (\<lambda>e. fst e \<noteq> k) ?al)" by simp
    with e(2) show "q \<in> fst ` set (running_tasks ?s1)" unfolding s1 del by force
  qed
  have d2: "distinct ks" using Cons.prems(2) by simp
  have ih: "fold pop_task ks ?s1 = ?s1\<lparr>running_tasks := filter (\<lambda>e. fst e \<notin> set ks) (running_tasks ?s1),
       available_cpu := available_cpu ?s1
          + sum_list (map cpu_of (filter (\<lambda>e. fst e \<in> set ks) (running_tasks ?s1))),
       available_storage := available_storage ?s1
          + sum_list (map storage_of (filter (\<lambda>e. fst e \<in> set ks) (running_tasks ?s1))),
       available_memory := available_memory ?s1
          + sum_list (map memory_of (filter (\<lambda>e. fst e \<in> set ks) (running_tasks ?s1)))\<rparr>"
    by (rule Cons.IH [OF d1 d2 k1])
  have sp: "\<And>f :: uuid \<times> reservation \<Rightarrow> int.
      sum_list (map f (filter (\<lambda>e. fst e = k \<or> fst e \<in> set ks) ?al))
        = f (k, v) + sum_list (map f (filter (\<lambda>e. fst e \<noteq> k \<and> fst e \<in> set ks) ?al))"
    using sum_filter_key_split [OF Cons.prems(1) v, where P = "\<lambda>e. fst e \<in> set ks"] by simp
  have c1: "sum_list (map cpu_of (filter (\<lambda>e. fst e = k \<or> fst e \<in> set ks) ?al))
        = c + sum_list (map cpu_of (filter (\<lambda>e. fst e \<noteq> k \<and> fst e \<in> set ks) ?al))"
    unfolding sp by (simp add: vv cpu_of_def)
  have c2: "sum_list (map storage_of (filter (\<lambda>e. fst e = k \<or> fst e \<in> set ks) ?al))
        = st + sum_list (map storage_of (filter (\<lambda>e. fst e \<noteq> k \<and> fst e \<in> set ks) ?al))"
    unfolding sp by (simp add: vv storage_of_def)
  have c3: "sum_list (map memory_of (filter (\<lambda>e. fst e = k \<or> fst e \<in> set ks) ?al))
        = m + sum_list (map memory_of (filter (\<lambda>e. fst e \<noteq> k \<and> fst e \<in> set ks) ?al))"
    unfolding sp by (simp add: vv memory_of_def)
  have "fold pop_task (k # ks) s = fold pop_task ks ?s1" by simp
  also note ih
  finally show ?case
    by (simp add: s1 del c1 c2 c3 algebra_simps)
qed


lemma release_completed_tasks_eq:
  assumes "distinct (map fst (running_tasks s))"
  shows "release_completed_tasks s now =
     s\<lparr>running_tasks := filter (\<lambda>e. \<not> is_due now e) (running_tasks s),
       available_cpu := available_cpu s
          + sum_list (map cpu_of (filter (is_due now) (running_tasks s))),
       available_storage := available_storage s
          + sum_list (map storage_of (filter (is_due now) (running_tasks s))),
       available_memory := available_memory s
          + sum_list (map memory_of (filter (is_due now) (running_tasks s)))\<rparr>"
proof -
  let ?al = "running_tasks s"
  let ?ks = "map fst (filter (is_due now) ?al)"
  have d: "distinct ?ks" using assms by (rule distinct_map_filter)
  have sub: "set ?ks \<subseteq> fst ` set ?al" by auto
  have mem: "\<And>e. e \<in> set ?al \<Longrightarrow> fst e \<in> set ?ks \<longleftrightarrow> is_due now e"
  proof -
    fix e assume e: "e \<in> set ?al"
    show "fst e \<in> set ?ks \<longleftrightarrow> is_due now e"
    proof
      assume "fst e \<in> set ?ks"
      then obtain e' where e': "e' \<in> set ?al" "is_due now e'" "fst e' = fst e" by auto
      from assms have "inj_on fst (set ?al)" by (simp add: distinct_map)
      then have "e' = e" using e'(3) e'(1) e by (rule inj_onD)
      with e'(2) show "is_due now e" by simp
    next
      assume "is_due now e"
      with e show "fst e \<in> set ?ks" by auto
    qed
  qed
  have f1: "filter (\<lambda>e. fst e \<in> set ?ks) ?al = filter (is_due now) ?al"
    by (rule filter_cong [OF refl]) (rule mem)
  have f2: "filter (\<lambda>e. fst e \<notin> set ?ks) ?al = filter (\<lambda>e. \<not> is_due now e) ?al"
    by (rule filter_cong [OF refl]) (simp only: mem)
  show ?thesis
    unfolding release_completed_tasks_def Let_def
    by (simp only: fold_pop_task [OF assms d sub] f1 f2)
qed

lemma release_completed_tasks_idem:
  assumes "distinct (map fst (running_tasks s))"
  shows "release_completed_tasks (release_completed_tasks s now) now
           = release_completed_tasks s now"
proof -
  let ?s1 = "release_completed_tasks s now"
  have r1: "running_tasks ?s1 = filter (\<lambda>e. \<not> is_due now e) (running_tasks s)"
    by (simp add: release_completed_tasks_eq [OF assms])
  have "filter (is_due now) (running_tasks ?s1) = []"
    by (simp add: r1 filter_empty_conv)
  then show ?thesis
    by (simp add: release_completed_tasks_def [of ?s1])
qed

text \<open>
  C6. For every server state and every demand triple, \<open>allocate\<close> succeeds exactly when
  \<open>can_allocate\<close> holds; on success it deducts the three demands and records the
  reservation under the task identifier; on failure it returns \<open>False\<close> and the server is
  the one it was given: no quantity deducted, no reservation recorded, no counter changed.
\<close>

theorem allocate_atomic:
  "(fst (allocate w s tid c st m rt) \<longleftrightarrow> can_allocate s c st m) \<and>
   (can_allocate s c st m \<longrightarrow>
      available_cpu (snd (allocate w s tid c st m rt)) = available_cpu s - c \<and>
      available_storage (snd (allocate w s tid c st m rt)) = available_storage s - st \<and>
      available_memory (snd (allocate w s tid c st m rt)) = available_memory s - m \<and>
      map_of (running_tasks (snd (allocate w s tid c st m rt))) tid = Some (c, st, m, rt)) \<and>
   (\<not> can_allocate s c st m \<longrightarrow> allocate w s tid c st m rt = (False, s))"
  by (cases "can_allocate s c st m") (simp_all add: allocate_success allocate_failure update_conv')

theorem allocate_atomic_witness:
  "can_allocate Edge_1 10 10 10 \<and> \<not> can_allocate small_edge 10 10 10 \<and>
   available_cpu (snd (allocate WORKLOAD Edge_1 ''task-1'' 10 10 10 5)) = 279990 \<and>
   allocate WORKLOAD small_edge ''task-1'' 10 10 10 5 = (False, small_edge)"
proof -
  have a: "can_allocate Edge_1 10 10 10"
    by (simp add: can_allocate_def Edge_1_def Server_init_def)
  have b: "\<not> can_allocate small_edge 10 10 10"
    by (simp add: can_allocate_def small_edge_def Server_init_def)
  have c: "available_cpu Edge_1 = 280000"
    by (simp add: Edge_1_def Server_init_def)
  from a b c allocate_atomic [of WORKLOAD Edge_1 "''task-1''" 10 10 10 5]
    allocate_atomic [of WORKLOAD small_edge "''task-1''" 10 10 10 5]
  show ?thesis by simp
qed

lemma allocate_seq_data:
  "total_data_transferred_kb (snd (allocate_seq w s reqs))
     = total_data_transferred_kb s
       + real (fst (allocate_seq w s reqs)) * real_of_int (data_per_device_kb w)"
proof (induction reqs arbitrary: s)
  case Nil
  then show ?case by simp
next
  case (Cons r reqs)
  obtain tid c st m rt where r: "r = (tid, c, st, m, rt)" by (cases r) auto
  show ?case
  proof (cases "can_allocate s c st m")
    case True
    then show ?thesis
      using Cons.IH [of "snd (allocate w s tid c st m rt)"]
      by (simp add: r allocate_success split_beta algebra_simps)
  next
    case False
    then show ?thesis
      using Cons.IH [of s]
      by (simp add: r allocate_failure split_beta)
  qed
qed

lemma try_tier_data_size:
  "try_tier w tier (t\<lparr>data_size_kb := d\<rparr>) now srvs = try_tier w tier t now srvs"
  by (simp add: try_tier_def eligible_def Let_def split: list.splits)

lemma update_filter_sum:
  fixes f :: "'k \<times> 'v \<Rightarrow> int"
  assumes "distinct (map fst al)"
  shows "sum_list (map f (filter P (AList.update k v al)))
       = (if P (k, v) then f (k, v) else 0)
         + sum_list (map f (filter P (AList.delete k al)))"
  using assms
proof (induction al)
  case Nil
  then show ?case by simp
next
  case (Cons a al)
  show ?case
  proof (cases "fst a = k")
    case True
    with Cons.prems have "k \<notin> fst ` set al" by auto
    then have "AList.delete k al = al" by (simp add: delete_id)
    with True show ?thesis by (cases a) (simp add: AList.delete_eq)
  next
    case False
    with Cons show ?thesis by (cases a) (auto simp: AList.delete_eq)
  qed
qed

lemma update_filter_not:
  assumes "distinct (map fst al)" and "\<not> Q (k, v)"
  shows "filter Q (AList.update k v al) = filter Q (AList.delete k al)"
  using assms
proof (induction al)
  case Nil
  then show ?case by simp
next
  case (Cons a al)
  show ?case
  proof (cases "fst a = k")
    case True
    with Cons.prems have "k \<notin> fst ` set al" by auto
    then have "AList.delete k al = al" by (simp add: delete_id)
    with True Cons.prems(2) show ?thesis by (cases a) (simp add: AList.delete_eq)
  next
    case False
    with Cons show ?thesis by (cases a) (auto simp: AList.delete_eq)
  qed
qed

lemma release_after_allocate_cpu:
  assumes "distinct (map fst (running_tasks s))" and "can_allocate s c st m"
  shows "release_completed_tasks (snd (allocate w s tid c st m rt)) rt =
     (snd (allocate w s tid c st m rt))
       \<lparr>running_tasks := filter (\<lambda>e. \<not> is_due rt e) (AList.delete tid (running_tasks s)),
        available_cpu := available_cpu s
          + sum_list (map cpu_of (filter (is_due rt) (AList.delete tid (running_tasks s)))),
        available_storage := available_storage s
          + sum_list (map storage_of (filter (is_due rt) (AList.delete tid (running_tasks s)))),
        available_memory := available_memory s
          + sum_list (map memory_of (filter (is_due rt) (AList.delete tid (running_tasks s))))\<rparr>"
proof -
  let ?s1 = "snd (allocate w s tid c st m rt)"
  have r: "running_tasks ?s1 = AList.update tid (c, st, m, rt) (running_tasks s)"
    using assms(2) by (simp add: allocate_success)
  have d: "distinct (map fst (running_tasks ?s1))"
    using assms(1) by (simp add: r distinct_update)
  have due: "is_due rt (tid, c, st, m, rt)" by (simp add: is_due_def)
  have nd: "filter (\<lambda>e. \<not> is_due rt e) (AList.update tid (c, st, m, rt) (running_tasks s))
          = filter (\<lambda>e. \<not> is_due rt e) (AList.delete tid (running_tasks s))"
    using assms(1) due by (intro update_filter_not) simp_all
  show ?thesis
    unfolding release_completed_tasks_eq [OF d]
    using assms(2) due
    by (simp add: r nd update_filter_sum [OF assms(1)] allocate_success cpu_of_def storage_of_def memory_of_def)
qed

lemma busy_edge_eval:
  "busy_edge = Edge_1\<lparr>available_cpu := 279990, available_storage := 799990,
      available_memory := 299990, running_tasks := [(''task-0'', (10, 10, 10, 5))],
      total_data_transferred_kb := 10, total_cost := 10 * (5 / 100000) + 10 * (2 / 100000)\<rparr>"
  by (simp add: busy_edge_def Edge_1_def Server_init_def allocate_def can_allocate_def
        WORKLOAD_def Let_def)

text \<open>
  C5, as stated, is false: \<open>release_completed_tasks\<close> frees every reservation that is due,
  so availability after the call exceeds the value before the allocation whenever another
  reservation of the node is due as well. Here \<open>task_0\<close> and \<open>task_1\<close> were admitted with the
  same release time 5: before admitting \<open>task_1\<close> the node has 279990 units of CPU, after
  the release at time 5 it has 280000.
\<close>

theorem release_roundtrip_counterexample:
  "can_allocate busy_edge 10 10 10 \<and>
   available_cpu busy_edge = 279990 \<and>
   available_cpu (release_completed_tasks
                    (snd (allocate WORKLOAD busy_edge ''task-1'' 10 10 10 5)) 5) = 280000"
  by (simp add: busy_edge_eval Edge_1_def Server_init_def allocate_def can_allocate_def
        WORKLOAD_def Let_def release_completed_tasks_def is_due_def pop_task_def)

text \<open>
  C5, amended. After a successful \<open>allocate\<close> with release time \<open>rt\<close> on a server whose
  dictionary has no duplicate keys, \<open>release_completed_tasks\<close> at \<open>rt\<close> leaves each of CPU,
  storage and memory at its value before the allocation plus what the other reservations due
  at \<open>rt\<close> held; when no other reservation is due, the three values are exactly those before
  the allocation. Calling \<open>release_completed_tasks\<close> a second time with the same \<open>now\<close>
  changes nothing.
\<close>

theorem release_after_allocate:
  assumes "distinct (map fst (running_tasks s))" and "can_allocate s c st m"
  shows
    "available_cpu (release_completed_tasks (snd (allocate w s tid c st m rt)) rt)
       = available_cpu s
         + sum_list (map cpu_of (filter (is_due rt) (AList.delete tid (running_tasks s)))) \<and>
     available_storage (release_completed_tasks (snd (allocate w s tid c st m rt)) rt)
       = available_storage s
         + sum_list (map storage_of (filter (is_due rt) (AList.delete tid (running_tasks s)))) \<and>
     available_memory (release_completed_tasks (snd (allocate w s tid c st m rt)) rt)
       = available_memory s
         + sum_list (map memory_of (filter (is_due rt) (AList.delete tid (running_tasks s)))) \<and>
     (filter (is_due rt) (AList.delete tid (running_tasks s)) = [] \<longrightarrow>
        available_cpu (release_completed_tasks (snd (allocate w s tid c st m rt)) rt)
          = available_cpu s \<and>
        available_storage (release_completed_tasks (snd (allocate w s tid c st m rt)) rt)
          = available_storage s \<and>
        available_memory (release_completed_tasks (snd (allocate w s tid c st m rt)) rt)
          = available_memory s) \<and>
     release_completed_tasks
        (release_completed_tasks (snd (allocate w s tid c st m rt)) now) now
       = release_completed_tasks (snd (allocate w s tid c st m rt)) now"
proof -
  let ?s1 = "snd (allocate w s tid c st m rt)"
  have d: "distinct (map fst (running_tasks ?s1))"
    using assms by (simp add: allocate_success distinct_update)
  have idem: "release_completed_tasks (release_completed_tasks ?s1 now) now
                = release_completed_tasks ?s1 now"
    using d by (rule release_completed_tasks_idem)
  show ?thesis
    unfolding release_after_allocate_cpu [OF assms] idem by simp
qed

theorem release_after_allocate_witness:
  "distinct (map fst (running_tasks Edge_1)) \<and> can_allocate Edge_1 10 10 10 \<and>
   available_cpu (release_completed_tasks
                    (snd (allocate WORKLOAD Edge_1 ''task-1'' 10 10 10 5)) 5) = 280000 \<and>
   distinct (map fst (running_tasks busy_edge)) \<and> can_allocate busy_edge 10 10 10 \<and>
   available_cpu (release_completed_tasks
                    (snd (allocate WORKLOAD busy_edge ''task-1'' 10 10 10 5)) 5)
     = available_cpu busy_edge + 10"
proof -
  have a: "distinct (map fst (running_tasks Edge_1))" "can_allocate Edge_1 10 10 10"
    by (simp_all add: Edge_1_def Server_init_def can_allocate_def)
  have b: "distinct (map fst (running_tasks busy_edge))" "can_allocate busy_edge 10 10 10"
    by (simp_all add: busy_edge_eval can_allocate_def Edge_1_def Server_init_def)
  have c: "running_tasks Edge_1 = []" "available_cpu Edge_1 = 280000"
    by (simp_all add: Edge_1_def Server_init_def)
  have e: "running_tasks busy_edge = [(''task-0'', (10, 10, 10, 5))]"
    by (simp add: busy_edge_eval)
  from release_after_allocate [OF a, of WORKLOAD "''task-1''" 5 5]
       release_after_allocate [OF b, of WORKLOAD "''task-1''" 5 5]
  show ?thesis using a b by (simp add: c e is_due_def cpu_of_def)
qed

lemma allocate_rates:
  "cost (snd (allocate w s tid c st m rt)) = cost s"
  "tx_cost (snd (allocate w s tid c st m rt)) = tx_cost s"
  "bandwidth (snd (allocate w s tid c st m rt)) = bandwidth s"
  by (cases "can_allocate s c st m"; simp add: allocate_success allocate_failure)+

lemma allocate_seq_cost:
  "total_cost (snd (allocate_seq w s reqs))
     = total_cost s + real_of_int (admitted_cpu w s reqs) * cost s
       + real (fst (allocate_seq w s reqs)) * (real_of_int (data_per_device_kb w) * tx_cost s)"
proof (induction reqs arbitrary: s)
  case Nil
  then show ?case by simp
next
  case (Cons r reqs)
  obtain tid c st m rt where r: "r = (tid, c, st, m, rt)" by (cases r) auto
  show ?case
  proof (cases "can_allocate s c st m")
    case True
    have t: "total_cost (snd (allocate w s tid c st m rt))
               = total_cost s + (real_of_int c * cost s
                   + real_of_int (data_per_device_kb w) * tx_cost s)"
      using True by (simp add: allocate_success)
    have f: "fst (allocate w s tid c st m rt)" using True by (simp add: allocate_success)
    show ?thesis
      using Cons.IH [of "snd (allocate w s tid c st m rt)"]
      by (simp add: r split_beta allocate_rates t f algebra_simps)
  next
    case False
    then show ?thesis
      using Cons.IH [of s]
      by (simp add: r allocate_failure split_beta)
  qed
qed

text \<open>
  C10, as stated, is false in its conclusion about the cost counter: two servers that each
  admitted one task have paid 7/10000 and 12/10000, because \<open>allocate\<close> charges
  \<open>cpu_demand * cost\<close> and the two tasks ask for 10 and 20 units of CPU.
\<close>

theorem cost_counter_counterexample:
  "fst (allocate_seq WORKLOAD Edge_1 [(''task-1'', (10, 10, 10, 5))]) = 1 \<and>
   fst (allocate_seq WORKLOAD Edge_1 [(''task-1'', (20, 10, 10, 5))]) = 1 \<and>
   total_cost (snd (allocate_seq WORKLOAD Edge_1 [(''task-1'', (10, 10, 10, 5))])) = 7 / 10000 \<and>
   total_cost (snd (allocate_seq WORKLOAD Edge_1 [(''task-1'', (20, 10, 10, 5))])) = 12 / 10000"
  by (simp add: allocate_def can_allocate_def Edge_1_def Server_init_def WORKLOAD_def Let_def)

text \<open>
  C10, amended. A successful \<open>allocate\<close> adds the configured \<open>data_per_device_kb\<close> to
  \<open>total_data_transferred_kb\<close> and \<open>cpu_demand * cost + data_per_device_kb * tx_cost\<close> to
  \<open>total_cost\<close>, whatever data size the task declares. After any sequence of calls the
  transferred data is the number of admissions times that constant, so it depends on the
  number of admissions only; the cost is the admitted CPU demand times \<open>cost\<close> plus the
  number of admissions times the constant times \<open>tx_cost\<close>, so it depends on the admitted
  CPU demands and the number of admissions, not on the data size of a task. The data size a
  task declares does not reach the scheduler's placement or the server.
\<close>

theorem allocate_counters:
  "(can_allocate s c st m \<longrightarrow>
      total_data_transferred_kb (snd (allocate w s tid c st m rt))
        = total_data_transferred_kb s + real_of_int (data_per_device_kb w) \<and>
      total_cost (snd (allocate w s tid c st m rt))
        = total_cost s + (real_of_int c * cost s + real_of_int (data_per_device_kb w) * tx_cost s)) \<and>
   total_data_transferred_kb (snd (allocate_seq w s reqs))
     = total_data_transferred_kb s
       + real (fst (allocate_seq w s reqs)) * real_of_int (data_per_device_kb w) \<and>
   total_cost (snd (allocate_seq w s reqs))
     = total_cost s + real_of_int (admitted_cpu w s reqs) * cost s
       + real (fst (allocate_seq w s reqs)) * (real_of_int (data_per_device_kb w) * tx_cost s) \<and>
   schedule_task w (t\<lparr>data_size_kb := d\<rparr>) now srvs = schedule_task w t now srvs"
  by (simp add: allocate_success allocate_seq_data allocate_seq_cost
        schedule_task_def try_tier_data_size split: option.splits)

theorem allocate_counters_witness:
  "can_allocate Edge_1 10 10 10 \<and>
   total_data_transferred_kb (snd (allocate WORKLOAD Edge_1 ''task-1'' 10 10 10 5)) = 10 \<and>
   total_cost (snd (allocate WORKLOAD Edge_1 ''task-1'' 10 10 10 5)) = 7 / 10000 \<and>
   fst (allocate_seq WORKLOAD Edge_1 [(''task-0'', (10, 10, 10, 5)), (''task-1'', (20, 10, 10, 5))])
     = 2 \<and>
   admitted_cpu WORKLOAD Edge_1 [(''task-0'', (10, 10, 10, 5)), (''task-1'', (20, 10, 10, 5))]
     = 30 \<and>
   total_data_transferred_kb
     (snd (allocate_seq WORKLOAD Edge_1
             [(''task-0'', (10, 10, 10, 5)), (''task-1'', (20, 10, 10, 5))])) = 20 \<and>
   total_cost
     (snd (allocate_seq WORKLOAD Edge_1
             [(''task-0'', (10, 10, 10, 5)), (''task-1'', (20, 10, 10, 5))])) = 19 / 10000"
proof -
  let ?reqs = "[(''task-0'', (10, 10, 10, 5)), (''task-1'', (20, 10, 10, 5))]"
  have a: "can_allocate Edge_1 10 10 10"
    by (simp add: can_allocate_def Edge_1_def Server_init_def)
  have c: "total_data_transferred_kb Edge_1 = 0" "total_cost Edge_1 = 0"
    "cost Edge_1 = 5 / 100000" "tx_cost Edge_1 = 2 / 100000" "data_per_device_kb WORKLOAD = 10"
    by (simp_all add: Edge_1_def Server_init_def WORKLOAD_def)
  have n: "fst (allocate_seq WORKLOAD Edge_1 ?reqs) = 2"
    "admitted_cpu WORKLOAD Edge_1 ?reqs = 30"
    by (simp_all add: allocate_def can_allocate_def Edge_1_def Server_init_def WORKLOAD_def
          Let_def)
  from allocate_counters [where s = Edge_1 and c = 10 and st = 10 and m = 10
         and w = WORKLOAD and tid = "''task-1''" and rt = 5 and reqs = ?reqs] a
  show ?thesis unfolding n c by simp
qed

subsection \<open>The workload generator\<close>

text \<open>
  C9. For a round number \<open>r \<ge> 1\<close> and a workload whose device counts and increment are
  not negative, \<open>generate_tasks\<close> builds exactly
  \<open>min (start_devices + (r - 1) * increment) max_devices\<close> tasks, and each of them has CPU,
  storage and memory demand equal to the configured \<open>data_per_device_kb\<close>.
\<close>

theorem generate_tasks_count:
  assumes "1 \<le> round_no" and "0 \<le> start_devices w" and "0 \<le> increment w"
    and "0 \<le> max_devices w"
  shows "int (length (generate_tasks w (WorkloadGenerator_init w) round_no fresh_ids prios))
           = min (start_devices w + (round_no - 1) * increment w) (max_devices w) \<and>
         (\<forall>t \<in> set (generate_tasks w (WorkloadGenerator_init w) round_no fresh_ids prios).
            cpu_demand t = data_per_device_kb w \<and> storage_demand t = data_per_device_kb w \<and>
            memory_demand t = data_per_device_kb w)"
proof -
  from assms have "0 \<le> start_devices w + (round_no - 1) * increment w" by simp
  with assms(4) show ?thesis
    by (auto simp: generate_tasks_def WorkloadGenerator_init_def Let_def Task_init_def min_def)
qed

theorem generate_tasks_count_witness:
  "(1::int) \<le> 3 \<and> 0 \<le> start_devices WORKLOAD \<and> 0 \<le> increment WORKLOAD \<and>
   0 \<le> max_devices WORKLOAD \<and>
   int (length (generate_tasks WORKLOAD (WorkloadGenerator_init WORKLOAD) 3 (\<lambda>i. ''id'') (\<lambda>i. 1)))
     = 120 \<and>
   int (length (generate_tasks WORKLOAD (WorkloadGenerator_init WORKLOAD) 1000 (\<lambda>i. ''id'') (\<lambda>i. 1)))
     = 6000"
proof -
  have h: "0 \<le> start_devices WORKLOAD" "0 \<le> increment WORKLOAD" "0 \<le> max_devices WORKLOAD"
    by (simp_all add: WORKLOAD_def)
  have v: "start_devices WORKLOAD = 100" "increment WORKLOAD = 10" "max_devices WORKLOAD = 6000"
    by (simp_all add: WORKLOAD_def)
  from generate_tasks_count [OF _ h, of 3 "\<lambda>i. ''id''" "\<lambda>i. 1"]
       generate_tasks_count [OF _ h, of 1000 "\<lambda>i. ''id''" "\<lambda>i. 1"]
  show ?thesis using h by (simp add: v)
qed

subsection \<open>Congestion\<close>

lemma congestion_nonzero:
  "bandwidth s \<noteq> 0 \<Longrightarrow>
   congestion s = Inr (py_round2 (100 * (total_data_transferred_kb s / real_of_int (bandwidth s))))"
  by (simp add: congestion_def mult.commute)

lemma congestion_half:
  "congestion (Edge_1\<lparr>total_data_transferred_kb := 500, bandwidth := 1000\<rparr>) = Inr 50"
  by (simp add: congestion_def py_round2_def round_half_even_def Let_def)

text \<open>
  C7. With a bandwidth of zero, \<open>congestion\<close> does not return 0.0: the division raises
  \<open>ZeroDivisionError\<close>. \<open>utilization\<close> of the same class tests its divisors and returns 0
  for a capacity of zero.
\<close>

theorem congestion_zero_bandwidth:
  "congestion (Edge_1\<lparr>bandwidth := 0\<rparr>) = Inl ZeroDivisionError \<and>
   congestion (Edge_1\<lparr>bandwidth := 0\<rparr>) \<noteq> Inr 0 \<and>
   utilization (Edge_1\<lparr>cpu_capacity := 0, storage_capacity := 0, memory_capacity := 0\<rparr>)
     = (0, 0, 0)"
  by (simp add: congestion_def utilization_def py_round2_def round_half_even_def Let_def)

subsection \<open>The rule-based scheduler and the application step\<close>

lemma task_1_fields:
  "task_id task_1 = ''task-1''" "cpu_demand task_1 = 10" "storage_demand task_1 = 10"
  "memory_demand task_1 = 10" "data_size_kb task_1 = 10"
  by (simp_all add: task_1_def Task_init_def WORKLOAD_def)

lemma Edge_1_fields:
  "name Edge_1 = ''Edge_1''" "latency Edge_1 = 5" "available_cpu Edge_1 = 280000"
  "available_storage Edge_1 = 800000" "available_memory Edge_1 = 300000"
  "running_tasks Edge_1 = []" "cpu_capacity Edge_1 = 280000"
  "storage_capacity Edge_1 = 800000" "memory_capacity Edge_1 = 300000"
  by (simp_all add: Edge_1_def Server_init_def)

lemma small_edge_fields:
  "name small_edge = ''Edge_1''" "latency small_edge = 5" "available_cpu small_edge = 5"
  "available_storage small_edge = 5" "available_memory small_edge = 5"
  by (simp_all add: small_edge_def Server_init_def)

lemma schedule_task_1_Edge_1:
  "schedule WORKLOAD [task_1] [Edge_1] 0 = ([(task_1, Some 0)], [admitted_edge])"
  by (simp add: schedule_task_def try_tier_def eligible_def can_allocate_def load_key_def
        task_1_fields Edge_1_fields admitted_edge_def Let_def split_beta)

lemma admitted_edge_fields:
  "available_cpu admitted_edge = 279990" "available_storage admitted_edge = 799990"
  "available_memory admitted_edge = 299990" "latency admitted_edge = 5"
  "running_tasks admitted_edge = [(''task-1'', (10, 10, 10, 5))]"
  "cpu_capacity admitted_edge = 280000"
  by (simp_all add: admitted_edge_def allocate_def can_allocate_def Edge_1_fields Let_def)

lemma schedule_returns_every_task:
  "map fst (fst (schedule w ts srvs now)) = ts"
  by (induction ts arbitrary: srvs) (simp_all add: split_beta Let_def)

lemma py_min_by_in: "py_min_by k b vs \<in> set (b # vs)"
  by (induction vs arbitrary: b) auto

lemma try_tier_Some:
  assumes "try_tier w tier t now srvs = Some (i, srvs')"
  shows "i < length srvs \<and> prefix tier (name (srvs ! i)) \<and>
         can_allocate (srvs ! i) (cpu_demand t) (storage_demand t) (memory_demand t) \<and>
         srvs' = srvs[i := snd (allocate w (srvs ! i) (task_id t) (cpu_demand t)
                                  (storage_demand t) (memory_demand t)
                                  (now + latency (srvs ! i)))]"
proof (cases "eligible tier t srvs")
  case Nil
  with assms show ?thesis by (simp add: try_tier_def)
next
  case (Cons p ps)
  let ?q = "py_min_by load_key p ps"
  have "?q \<in> set (eligible tier t srvs)" unfolding Cons by (rule py_min_by_in)
  then have q: "?q \<in> set (List.enumerate 0 srvs)"
    "prefix tier (name (snd ?q))"
    "can_allocate (snd ?q) (cpu_demand t) (storage_demand t) (memory_demand t)"
    by (auto simp: eligible_def)
  from q(1) have e: "fst ?q < length srvs" "snd ?q = srvs ! fst ?q"
    by (auto simp: in_set_enumerate_eq)
  from assms Cons have "i = fst ?q"
    "srvs' = srvs[fst ?q := snd (allocate w (snd ?q) (task_id t) (cpu_demand t)
                                  (storage_demand t) (memory_demand t)
                                  (now + latency (snd ?q)))]"
    by (auto simp: try_tier_def Let_def split_beta)
  with q e show ?thesis by simp
qed

lemma schedule_task_Some:
  assumes "schedule_task w t now srvs = (Some i, srvs')"
  shows "i < length srvs \<and>
         can_allocate (srvs ! i) (cpu_demand t) (storage_demand t) (memory_demand t)"
  using assms try_tier_Some [of w _ t now srvs i srvs']
  by (auto simp: schedule_task_def split: option.splits)

lemma schedule_task_None:
  assumes "schedule_task w t now srvs = (None, srvs')"
  shows "srvs' = srvs \<and> eligible ''Edge'' t srvs = [] \<and> eligible ''Regional'' t srvs = [] \<and>
         eligible ''Cloud'' t srvs = []"
  using assms
  by (auto simp: schedule_task_def try_tier_def Let_def split_beta split: option.splits list.splits)

text \<open>
  C1. The application step of the loop does deduct the demand a second time. The scheduler
  admits \<open>task_1\<close> on \<open>Edge_1\<close> through \<open>allocate\<close>, which leaves 279990, 799990 and
  299990 units of CPU, storage and memory; applying the returned pair then lowers the three
  to 279980, 799980 and 299980, while the only reservation recorded is the one of
  \<open>allocate\<close>.
\<close>

theorem apply_assignments_deducts_again:
  "schedule WORKLOAD [task_1] [Edge_1] 0 = ([(task_1, Some 0)], [admitted_edge]) \<and>
   available_cpu admitted_edge = 279990 \<and> available_storage admitted_edge = 799990 \<and>
   available_memory admitted_edge = 299990 \<and>
   apply_assignments 0 [(task_1, Some 0)] [admitted_edge]
     = Inr ([(complete task_1 0 5, Some 0)],
            [admitted_edge\<lparr>available_cpu := 279980, available_storage := 799980,
                            available_memory := 299980\<rparr>])"
  by (simp add: schedule_task_1_Edge_1 admitted_edge_fields task_1_fields Let_def
        del: schedule.simps)

text \<open>
  C4. A task that no tier admits is still in the sequence the scheduler returns, paired with
  \<open>None\<close>: \<open>small_edge\<close> cannot hold \<open>task_1\<close>, the result is \<open>[(task_1, None)]\<close>, the
  failure count of the loop is \<open>1 - 1 = 0\<close>, and the application step raises on the pair.
\<close>

theorem schedule_returns_unplaced_task:
  "\<not> can_allocate small_edge (cpu_demand task_1) (storage_demand task_1) (memory_demand task_1) \<and>
   schedule WORKLOAD [task_1] [small_edge] 0 = ([(task_1, None)], [small_edge]) \<and>
   int (length [task_1]) - int (length (fst (schedule WORKLOAD [task_1] [small_edge] 0))) = 0 \<and>
   apply_assignments 0 (fst (schedule WORKLOAD [task_1] [small_edge] 0))
     (snd (schedule WORKLOAD [task_1] [small_edge] 0)) = Inl AttributeError"
  by (simp add: schedule_task_def try_tier_def eligible_def can_allocate_def
        task_1_fields small_edge_fields Let_def split_beta)

subsection \<open>The metrics step\<close>

lemma first_raised_None: "first_raised f vs = None \<longleftrightarrow> (\<forall>v \<in> set vs. f v = None)"
  by (induction vs) (auto split: option.splits)

lemma transmission_delay_edge_value:
  "calculate_transmission_delay d ''Edge_1'' = Inr (real_of_int (d * 8) / 164000 * 1000)"
  "calculate_transmission_delay d ''Edge_2'' = Inr (real_of_int (d * 8) / 164000 * 1000)"
  by (simp_all add: calculate_transmission_delay_def extract_base_layer_def SERVER_CONFIG_def)

lemma transmission_delay_edge:
  "\<exists>v. calculate_transmission_delay d ''Edge_1'' = Inr v"
  "\<exists>v. calculate_transmission_delay d ''Edge_2'' = Inr v"
  using transmission_delay_edge_value [of d] by blast+

lemma manager_entities: "entities (MobilityManager_init mc es) = es"
  by (simp add: MobilityManager_init_def)

lemma report_metrics_single:
  assumes "entity_id t = Some j" and "j < length ents"
    and "\<exists>v. calculate_transmission_delay (data_size_kb t) (name (srvs ! i)) = Inr v"
    and "cpu_capacity (srvs ! i) \<noteq> 0" and "memory_capacity (srvs ! i) \<noteq> 0"
    and "storage_capacity (srvs ! i) \<noteq> 0" and "bandwidth (srvs ! i) \<noteq> 0"
  shows "report_metrics ents [(t, Some i)] srvs = None"
proof -
  have "server_metrics ents [(t, Some i)] q = None" if q: "q \<in> set (List.enumerate 0 srvs)" for q
  proof (cases "fst q = i")
    case True
    from q have "snd q = srvs ! fst q" by (auto simp: in_set_enumerate_eq)
    with True have sq: "snd q = srvs ! i" by simp
    from assms(3) obtain v where
      v: "calculate_transmission_delay (data_size_kb t) (name (srvs ! i)) = Inr v" by blast
    have "task_metrics ents (srvs ! i) t = None"
      using assms(1,2) v by (simp add: task_metrics_def)
    with True assms(4-7) show ?thesis
      by (simp add: server_metrics_def sq Let_def)
  next
    case False
    then show ?thesis by (auto simp: server_metrics_def Let_def)
  qed
  then show ?thesis by (simp add: report_metrics_def first_raised_None)
qed

text \<open>Two inputs on which the metrics step raises.\<close>

lemma report_metrics_no_entity:
  "report_metrics [] [(task_1\<lparr>entity_id := Some 0\<rparr>, Some 0)] [Edge_1] = Some IndexError"
  by (simp add: report_metrics_def server_metrics_def task_metrics_def Let_def)

lemma report_metrics_zero_bandwidth:
  "report_metrics [device_near_edge] [(task_1\<lparr>entity_id := Some 0\<rparr>, Some 0)]
     [Edge_1\<lparr>bandwidth := 0\<rparr>] = Some ZeroDivisionError"
  by (simp add: report_metrics_def server_metrics_def task_metrics_def Let_def
        Edge_1_def Server_init_def transmission_delay_edge_value)

subsection \<open>The ledger invariant\<close>

text \<open>
  \<open>allocate\<close> with demands that are not negative and a fresh task identifier, and
  \<open>release_completed_tasks\<close>, both keep the ledger invariant.
\<close>

lemma update_fresh:
  "k \<notin> fst ` set al \<Longrightarrow> AList.update k v al = al @ [(k, v)]"
  by (induction al) auto

lemma sum_filter_partition:
  fixes f :: "'a \<Rightarrow> int"
  shows "sum_list (map f al)
       = sum_list (map f (filter P al)) + sum_list (map f (filter (\<lambda>e. \<not> P e) al))"
  by (induction al) auto

lemma allocate_ledger_inv:
  assumes "ledger_inv s" and "tid \<notin> fst ` set (running_tasks s)"
    and "0 \<le> c" and "0 \<le> st" and "0 \<le> m"
  shows "ledger_inv (snd (allocate w s tid c st m rt))"
proof (cases "can_allocate s c st m")
  case True
  with assms show ?thesis
    by (simp add: allocate_success ledger_inv_def update_fresh can_allocate_def
          cpu_of_def storage_of_def memory_of_def)
next
  case False
  with assms(1) show ?thesis by (simp add: allocate_failure)
qed

lemma release_ledger_inv:
  assumes "ledger_inv s" and "distinct (map fst (running_tasks s))"
    and "nonneg_reservations s"
  shows "ledger_inv (release_completed_tasks s now)"
proof -
  let ?al = "running_tasks s"
  let ?due = "filter (is_due now) ?al"
  let ?rest = "filter (\<lambda>e. \<not> is_due now e) ?al"
  have nn: "\<And>e. e \<in> set ?al \<Longrightarrow> 0 \<le> cpu_of e \<and> 0 \<le> storage_of e \<and> 0 \<le> memory_of e"
    using assms(3) by (simp add: nonneg_reservations_def list_all_iff)
  have p1: "0 \<le> sum_list (map cpu_of ?due)" "0 \<le> sum_list (map cpu_of ?rest)"
    "0 \<le> sum_list (map storage_of ?due)" "0 \<le> sum_list (map storage_of ?rest)"
    "0 \<le> sum_list (map memory_of ?due)" "0 \<le> sum_list (map memory_of ?rest)"
    by (auto intro!: sum_list_nonneg simp: nn)
  have s1: "sum_list (map cpu_of ?al) = sum_list (map cpu_of ?due) + sum_list (map cpu_of ?rest)"
    by (rule sum_filter_partition)
  have s2: "sum_list (map storage_of ?al)
              = sum_list (map storage_of ?due) + sum_list (map storage_of ?rest)"
    by (rule sum_filter_partition)
  have s3: "sum_list (map memory_of ?al)
              = sum_list (map memory_of ?due) + sum_list (map memory_of ?rest)"
    by (rule sum_filter_partition)
  from assms(1) p1 s1 s2 s3 show ?thesis
    unfolding release_completed_tasks_eq [OF assms(2)] ledger_inv_def by simp
qed


lemma near_edge_step:
  assumes "pos_x srv = 100" and "pos_y srv = 200" and "mobility srv = None"
  shows "update_all MOBILITY_CONFIG (MobilityManager_init MOBILITY_CONFIG [device_near_edge])
           [srv] sd ed
         = Inr ((0, 0),
                MobilityManager_init MOBILITY_CONFIG
                  [device_near_edge\<lparr>ent_mobility := Some (resting\<lparr>rw_pause_time := 9 / 10\<rparr>)\<rparr>],
                [srv])"
  using assms
  by (simp add: update_all_def MobilityManager_init_def MOBILITY_CONFIG_def device_near_edge_def
     MobileEntity_init_def move_server_def move_entity_def next_position_def resting_def Let_def
     update_entity_def pick_best_bs_def best_server_def signal_strength_def hypot_def)

lemma generate_one_device:
  "map (\<lambda>(idx, t). t\<lparr>entity_id := Some idx\<rparr>)
     (List.enumerate 0 (generate_tasks one_device (WorkloadGenerator_init one_device) 1
                          (\<lambda>i. ''task-1'') (\<lambda>i. 1)))
   = [task_1\<lparr>entity_id := Some 0\<rparr>]"
  by (simp add: generate_tasks_def WorkloadGenerator_init_def one_device_def Let_def
        task_1_def Task_init_def WORKLOAD_def)

text \<open>
  C3. The per-round steps of the loop break the invariant. One round on \<open>Edge_1\<close> with one
  device: the server starts with a sound ledger; after the round it holds one reservation
  of 10 units of CPU out of 280000 but has 279980 available, so
  \<open>available = capacity - reserved\<close> fails; once the reservation is released nothing is held
  and 279990 of 280000 are available. This is the second deduction of C1.
\<close>

theorem round_breaks_ledger:
  "list_all ledger_inv (servers (sim_with Edge_1)) \<and>
   (case run_round one_device MOBILITY_CONFIG (sim_with Edge_1) 1 draws_1 of
      Inl err \<Rightarrow> False
    | Inr (sim', failed_count) \<Rightarrow>
        map running_tasks (servers sim') = [[(''task-1'', (10, 10, 10, 5))]] \<and>
        map cpu_capacity (servers sim') = [280000] \<and>
        map available_cpu (servers sim') = [279980] \<and>
        \<not> list_all ledger_inv (servers sim') \<and>
        map (\<lambda>s. (running_tasks (release_completed_tasks s 5),
                  available_cpu (release_completed_tasks s 5))) (servers sim')
          = [([], 279990)])"
proof -
  have e: "pos_x Edge_1 = 100" "pos_y Edge_1 = 200" "mobility Edge_1 = None"
    by (simp_all add: Edge_1_def Server_init_def)
  have r: "release_completed_tasks Edge_1 0 = Edge_1"
    by (simp add: release_completed_tasks_def Edge_1_fields)
  have t: "cpu_demand (task_1\<lparr>entity_id := Some 0\<rparr>) = 10"
    "storage_demand (task_1\<lparr>entity_id := Some 0\<rparr>) = 10"
    "memory_demand (task_1\<lparr>entity_id := Some 0\<rparr>) = 10"
    "data_size_kb (task_1\<lparr>entity_id := Some 0\<rparr>) = 10"
    "task_id (task_1\<lparr>entity_id := Some 0\<rparr>) = ''task-1''"
    by (simp_all add: task_1_fields)
  have s: "schedule one_device [task_1\<lparr>entity_id := Some 0\<rparr>] [Edge_1] 0
             = ([(task_1\<lparr>entity_id := Some 0\<rparr>, Some 0)], [admitted_edge])"
    by (simp add: schedule_task_def try_tier_def eligible_def can_allocate_def load_key_def
        t Edge_1_fields admitted_edge_def Let_def split_beta allocate_def one_device_def
        WORKLOAD_def)
  have a: "apply_assignments 0 [(task_1\<lparr>entity_id := Some 0\<rparr>, Some 0)] [admitted_edge]
     = Inr ([(complete (task_1\<lparr>entity_id := Some 0\<rparr>) 0 5, Some 0)],
            [admitted_edge\<lparr>available_cpu := 279980, available_storage := 799980,
                            available_memory := 299980\<rparr>])"
    by (simp add: admitted_edge_fields t Let_def)
  have m: "report_metrics ents
             [(complete (task_1\<lparr>entity_id := Some 0\<rparr>) 0 5, Some 0)]
             [admitted_edge\<lparr>available_cpu := 279980, available_storage := 799980,
                            available_memory := 299980\<rparr>] = None"
    if "ents \<noteq> []" for ents
    using that
    by (intro report_metrics_single [where j = 0])
       (simp_all add: complete_def task_1_def Task_init_def admitted_edge_def allocate_def
          can_allocate_def Edge_1_def Server_init_def Let_def transmission_delay_edge)
  have i: "list_all ledger_inv (servers (sim_with Edge_1))"
    by (simp add: sim_with_def ledger_inv_def Edge_1_fields)
  have run: "run_round one_device MOBILITY_CONFIG (sim_with Edge_1) 1 draws_1
     = Inr ((sim_with Edge_1)\<lparr>current_time := 1,
              servers := [admitted_edge\<lparr>available_cpu := 279980, available_storage := 799980,
                            available_memory := 299980\<rparr>],
              tasks := filter (\<lambda>t. \<not> is_assigned t)
                         [complete (task_1\<lparr>entity_id := Some 0\<rparr>) 0 5],
              sim_mobility := MobilityManager_init MOBILITY_CONFIG
                  [device_near_edge\<lparr>ent_mobility := Some (resting\<lparr>rw_pause_time := 9 / 10\<rparr>)\<rparr>]\<rparr>,
            0)"
    by (simp add: run_round_def sim_with_def near_edge_step [OF e] r draws_1_def
          generate_one_device s a m manager_entities
          del: schedule.simps apply_assignments.simps)
  show ?thesis
    unfolding run
    by (simp add: i admitted_edge_fields ledger_inv_def cpu_of_def
          release_completed_tasks_def is_due_def pop_task_def)
qed

subsection \<open>Mobility: signal, hysteresis and handover counters\<close>

lemma hypot_zero_left: "hypot 0 b = \<bar>b\<bar>"
  by (simp add: hypot_def)

lemma log_10_100: "log 10 100 = 2"
proof -
  have "log 10 (10 ^ 2) = real 2" by (rule log_pow_cancel) simp_all
  then show ?thesis by simp
qed

lemma signal_at_origin:
  "signal_strength (device_at_origin att) node_A = 0"
  "signal_strength (device_at_origin att) node_B = - 40"
  by (simp_all add: signal_strength_def device_at_origin_def MobileEntity_init_def
        node_A_def node_B_def Server_init_def hypot_zero_left log_10_100)

lemma py_max_by_in: "py_max_by k b vs \<in> set (b # vs)"
  by (induction vs arbitrary: b) auto

lemma py_max_by_greatest: "v \<in> set (b # vs) \<Longrightarrow> k v \<le> k (py_max_by k b vs)"
proof (induction vs arbitrary: b v)
  case Nil
  then show ?case by simp
next
  case (Cons u vs)
  show ?case
  proof (cases "k u > k b")
    case True
    from Cons.prems have "v = b \<or> v \<in> set (u # vs)" by auto
    then show ?thesis
    proof
      assume "v = b"
      with True have "k v \<le> k u" by simp
      also have "k u \<le> k (py_max_by k u vs)" by (rule Cons.IH) simp
      finally show ?thesis using True by simp
    next
      assume "v \<in> set (u # vs)"
      then have "k v \<le> k (py_max_by k u vs)" by (rule Cons.IH)
      then show ?thesis using True by simp
    qed
  next
    case False
    from Cons.prems have "v = u \<or> v \<in> set (b # vs)" by auto
    then show ?thesis
    proof
      assume "v = u"
      with False have "k v \<le> k b" by simp
      also have "k b \<le> k (py_max_by k b vs)" by (rule Cons.IH) simp
      finally show ?thesis using False by simp
    next
      assume "v \<in> set (b # vs)"
      then have "k v \<le> k (py_max_by k b vs)" by (rule Cons.IH)
      then show ?thesis using False by simp
    qed
  qed
qed

lemma best_server_nonempty:
  assumes "srvs \<noteq> []"
  shows "\<exists>b. best_server e srvs = Inr b \<and> b < length srvs \<and>
             (\<forall>i<length srvs. signal_strength e (srvs ! i) \<le> signal_strength e (srvs ! b))"
proof -
  from assms obtain p ps where en: "List.enumerate 0 srvs = p # ps"
    by (cases srvs) auto
  let ?k = "\<lambda>q. signal_strength e (snd q)"
  let ?q = "py_max_by ?k p ps"
  have b: "best_server e srvs = Inr (fst ?q)" by (simp add: best_server_def en)
  have "?q \<in> set (List.enumerate 0 srvs)" unfolding en by (rule py_max_by_in)
  then have q: "fst ?q < length srvs" "snd ?q = srvs ! fst ?q"
    by (auto simp: in_set_enumerate_eq)
  have "\<forall>i<length srvs. signal_strength e (srvs ! i) \<le> signal_strength e (srvs ! fst ?q)"
  proof (intro allI impI)
    fix i assume "i < length srvs"
    then have "(i, srvs ! i) \<in> set (p # ps)"
      unfolding en [symmetric] by (simp add: in_set_enumerate_eq)
    then have "?k (i, srvs ! i) \<le> ?k ?q" by (rule py_max_by_greatest)
    with q(2) show "signal_strength e (srvs ! i) \<le> signal_strength e (srvs ! fst ?q)" by simp
  qed
  with b q(1) show ?thesis by blast
qed


lemma pick_best_bs_keeps:
  assumes "best_server e srvs = Inr b" and "attached_server e = Some a"
    and "signal_strength e (srvs ! b) - signal_strength e (srvs ! a) < ho_threshold_db e"
  shows "pick_best_bs e srvs = Inr a" and "update_entity mc srvs e = Inr (e, False)"
proof -
  show p: "pick_best_bs e srvs = Inr a"
    using assms by (simp add: pick_best_bs_def)
  show "update_entity mc srvs e = Inr (e, False)"
    using assms(2) by (simp add: update_entity_def p)
qed

lemma origin_fields:
  "attached_server (device_at_origin att) = att" "ho_threshold_db (device_at_origin att) = 3"
  "ent_mobility (device_at_origin att) = None" "position (device_at_origin att) = Point 0 0"
  by (simp_all add: device_at_origin_def MobileEntity_init_def MOBILITY_CONFIG_def)

lemma best_at_origin: "best_server (device_at_origin att) [node_A, node_B] = Inr 0"
  by (simp add: best_server_def signal_at_origin)

lemma pick_at_origin_A: "pick_best_bs (device_at_origin (Some 0)) [node_A, node_B] = Inr 0"
  by (simp add: pick_best_bs_def best_at_origin origin_fields signal_at_origin)

lemma move_origin: "move_entity dt d (device_at_origin att) = device_at_origin att"
  by (simp add: move_entity_def origin_fields move_def)

lemma nodes_rest:
  "move_server dt d node_A = node_A" "move_server dt d node_B = node_B"
  by (simp_all add: move_server_def node_A_def node_B_def Server_init_def)

lemma update_all_at_A:
  "update_all MOBILITY_CONFIG ((manager_of (device_at_origin (Some 0)))\<lparr>ho_count := c, ho_delay := d\<rparr>)
     [node_A, node_B] sd ed
   = Inr ((c, d), (manager_of (device_at_origin (Some 0)))\<lparr>ho_count := c, ho_delay := d\<rparr>,
          [node_A, node_B])"
  by (simp add: update_all_def manager_of_def MobilityManager_init_def nodes_rest move_origin
        update_entity_def pick_at_origin_A origin_fields)

lemma manager_of_counters:
  "(manager_of e)\<lparr>ho_count := 0, ho_delay := 0\<rparr> = manager_of e"
  by (simp add: manager_of_def MobilityManager_init_def)

lemma update_all_n_at_A:
  "update_all_n n MOBILITY_CONFIG (manager_of (device_at_origin (Some 0))) [node_A, node_B] sd ed
   = Inr (manager_of (device_at_origin (Some 0)), [node_A, node_B])"
proof (induction n)
  case 0
  show ?case by simp
next
  case (Suc n)
  have "update_all MOBILITY_CONFIG (manager_of (device_at_origin (Some 0))) [node_A, node_B] sd ed
        = Inr ((0, 0), manager_of (device_at_origin (Some 0)), [node_A, node_B])"
    using update_all_at_A [of 0 0 sd ed] by (simp add: manager_of_counters)
  with Suc show ?case by simp
qed

text \<open>
  C8. For an entity attached to node \<open>a\<close> and a non-empty node list, the node \<open>b\<close> that
  \<open>max\<close> picks has the greatest signal, and whenever its signal exceeds the signal of
  \<open>a\<close> by strictly less than the entity's handover threshold, \<open>pick_best_bs\<close> returns
  \<open>a\<close> and the manager takes no handover. With threshold 3, an entity at \<open>(0, 0)\<close>,
  node A at \<open>(0, 1)\<close> (signal 0) and node B at \<open>(0, 100)\<close> (signal \<open>-40\<close>), the entity
  attached to A stays attached to A through any number of calls of \<open>update_all\<close>.
\<close>

theorem pick_best_bs_hysteresis:
  "(srvs \<noteq> [] \<longrightarrow> attached_server e = Some a \<longrightarrow>
      (\<exists>b. best_server e srvs = Inr b \<and> b < length srvs \<and>
           (\<forall>i<length srvs. signal_strength e (srvs ! i) \<le> signal_strength e (srvs ! b)) \<and>
           (signal_strength e (srvs ! b) - signal_strength e (srvs ! a) < ho_threshold_db e \<longrightarrow>
              pick_best_bs e srvs = Inr a \<and> update_entity mc srvs e = Inr (e, False)))) \<and>
   signal_strength (device_at_origin (Some 0)) node_A = 0 \<and>
   signal_strength (device_at_origin (Some 0)) node_B = - 40 \<and>
   ho_threshold_db (device_at_origin (Some 0)) = 3 \<and>
   pick_best_bs (device_at_origin (Some 0)) [node_A, node_B] = Inr 0 \<and>
   update_all_n n MOBILITY_CONFIG (manager_of (device_at_origin (Some 0))) [node_A, node_B] sd ed
     = Inr (manager_of (device_at_origin (Some 0)), [node_A, node_B])"
proof -
  have "\<exists>b. best_server e srvs = Inr b \<and> b < length srvs \<and>
           (\<forall>i<length srvs. signal_strength e (srvs ! i) \<le> signal_strength e (srvs ! b)) \<and>
           (signal_strength e (srvs ! b) - signal_strength e (srvs ! a) < ho_threshold_db e \<longrightarrow>
              pick_best_bs e srvs = Inr a \<and> update_entity mc srvs e = Inr (e, False))"
    if ne: "srvs \<noteq> []" and att: "attached_server e = Some a"
  proof -
    from best_server_nonempty [OF ne, of e] obtain b where
      b: "best_server e srvs = Inr b" "b < length srvs"
         "\<forall>i<length srvs. signal_strength e (srvs ! i) \<le> signal_strength e (srvs ! b)"
      by blast
    from b(1) att have "signal_strength e (srvs ! b) - signal_strength e (srvs ! a)
                          < ho_threshold_db e \<longrightarrow>
              pick_best_bs e srvs = Inr a \<and> update_entity mc srvs e = Inr (e, False)"
      by (auto intro: pick_best_bs_keeps)
    with b show ?thesis by blast
  qed
  then show ?thesis
    by (simp add: signal_at_origin origin_fields pick_at_origin_A update_all_n_at_A)
qed

theorem pick_best_bs_hysteresis_witness:
  "[node_A, node_B] \<noteq> [] \<and> attached_server (device_at_origin (Some 0)) = Some 0 \<and>
   (\<exists>b. best_server (device_at_origin (Some 0)) [node_A, node_B] = Inr b \<and>
        signal_strength (device_at_origin (Some 0)) ([node_A, node_B] ! b)
          - signal_strength (device_at_origin (Some 0)) ([node_A, node_B] ! 0)
          < ho_threshold_db (device_at_origin (Some 0)) \<and>
        pick_best_bs (device_at_origin (Some 0)) [node_A, node_B] = Inr 0 \<and>
        update_entity MOBILITY_CONFIG [node_A, node_B] (device_at_origin (Some 0))
          = Inr (device_at_origin (Some 0), False))"
proof -
  let ?e = "device_at_origin (Some 0)"
  have h: "[node_A, node_B] \<noteq> []" "attached_server ?e = Some 0"
    by (simp_all add: origin_fields)
  from pick_best_bs_hysteresis [of "[node_A, node_B]" ?e 0 MOBILITY_CONFIG] h
  obtain b where b: "best_server ?e [node_A, node_B] = Inr b"
    "signal_strength ?e ([node_A, node_B] ! b) - signal_strength ?e ([node_A, node_B] ! 0)
       < ho_threshold_db ?e \<longrightarrow>
     pick_best_bs ?e [node_A, node_B] = Inr 0 \<and>
     update_entity MOBILITY_CONFIG [node_A, node_B] ?e = Inr (?e, False)"
    by blast
  from b(1) have b0: "b = 0" by (simp add: best_at_origin)
  have lt: "signal_strength ?e ([node_A, node_B] ! b) - signal_strength ?e ([node_A, node_B] ! 0)
              < ho_threshold_db ?e"
    by (simp add: b0 signal_at_origin origin_fields)
  with b h show ?thesis by blast
qed

lemma update_entities_totals:
  assumes "update_entities mc dt srvs ents ed cnt dly = Inr (ents', c, d)"
  shows "c = cnt + int (length (filter (\<lambda>(j, ent). handover_fires mc srvs (move_entity dt (ed j) ent)) ents))
       \<and> d = dly + int (length (filter (\<lambda>(j, ent). handover_fires mc srvs (move_entity dt (ed j) ent)) ents))
                  * handover_latency_ms mc"
  using assms
proof (induction ents arbitrary: cnt dly ents' c d)
  case Nil
  then show ?case by simp
next
  case (Cons p ents)
  obtain j ent where p: "p = (j, ent)" by (cases p)
  from Cons.prems obtain ent1 fired where
    u: "update_entity mc srvs (move_entity dt (ed j) ent) = Inr (ent1, fired)"
    by (auto simp: p split: sum.splits)
  from Cons.prems u obtain rest' where
    r: "update_entities mc dt srvs ents ed (if fired then cnt + 1 else cnt)
          (if fired then dly + handover_latency_ms mc else dly) = Inr (rest', c, d)"
    by (auto simp: p split: sum.splits)
  have f: "handover_fires mc srvs (move_entity dt (ed j) ent) = fired"
    by (simp add: handover_fires_def u)
  from Cons.IH [OF r] show ?case
    by (cases fired) (simp_all add: p f algebra_simps)
qed

lemma pick_at_origin_B: "pick_best_bs (device_at_origin (Some 1)) [node_A, node_B] = Inr 0"
  by (simp add: pick_best_bs_def best_at_origin origin_fields signal_at_origin)

lemma pick_at_origin_B': "pick_best_bs (device_at_origin (Some (Suc 0))) [node_A, node_B] = Inr 0"
  using pick_at_origin_B by simp

lemma attach_origin:
  "(device_at_origin att)\<lparr>attached_server := att'\<rparr> = device_at_origin att'"
  by (simp add: device_at_origin_def)

lemma update_all_at_B:
  "update_all MOBILITY_CONFIG (manager_of (device_at_origin (Some 1))) [node_A, node_B] sd ed
   = Inr ((1, 20), (manager_of (device_at_origin (Some 0)))\<lparr>ho_count := 1, ho_delay := 20\<rparr>,
          [node_A, node_B])"
  by (simp add: update_all_def manager_of_def MobilityManager_init_def nodes_rest move_origin
        update_entity_def pick_at_origin_B' origin_fields signal_at_origin attach_origin
        MOBILITY_CONFIG_def Let_def)

lemma run_round_clock:
  assumes "run_round w mc sim round_no d = Inr (sim', failed_count)"
  shows "\<exists>c dl mgr' srvs'.
           update_all mc (sim_mobility sim) (servers sim) (server_draws d) (entity_draws d)
             = Inr ((c, dl), mgr', srvs') \<and>
           current_time sim' = current_time sim + dl + 1 \<and> sim_mobility sim' = mgr'"
  using assms
  by (auto simp: run_round_def Let_def split_beta split: sum.splits option.splits)

lemma update_entity_returns:
  assumes "srvs \<noteq> []"
  shows "\<exists>e' fired. update_entity mc srvs e = Inr (e', fired)"
proof -
  from best_server_nonempty [OF assms, of e] obtain b where "best_server e srvs = Inr b"
    by blast
  then have "\<exists>nb. pick_best_bs e srvs = Inr nb"
    by (cases "attached_server e") (simp_all add: pick_best_bs_def)
  then obtain nb where nb: "pick_best_bs e srvs = Inr nb" by blast
  show ?thesis
    by (cases "attached_server e") (auto simp: update_entity_def nb Let_def)
qed

lemma update_entities_returns:
  assumes "srvs \<noteq> []"
  shows "\<exists>ents' c d. update_entities mc dt srvs ents ed cnt dly = Inr (ents', c, d)"
proof (induction ents arbitrary: cnt dly)
  case Nil
  show ?case by simp
next
  case (Cons p ents)
  obtain j ent where p: "p = (j, ent)" by (cases p)
  from update_entity_returns [OF assms] obtain e' fired where
    u: "update_entity mc srvs (move_entity dt (ed j) ent) = Inr (e', fired)" by blast
  from Cons.IH obtain ents' c d where
    "update_entities mc dt srvs ents ed (if fired then cnt + 1 else cnt)
       (if fired then dly + handover_latency_ms mc else dly) = Inr (ents', c, d)"
    by blast
  with u show ?case by (simp add: p)
qed

lemma update_all_returns:
  assumes "srvs \<noteq> []"
  shows "\<exists>c d mgr' srvs'. update_all mc mgr srvs sd ed = Inr ((c, d), mgr', srvs')"
proof -
  let ?srvs = "map (\<lambda>(i, srv). move_server (mgr_time_step_ms mgr) (sd i) srv)
                 (List.enumerate 0 srvs)"
  from assms have "?srvs \<noteq> []" by (cases srvs) simp_all
  from update_entities_returns [OF this] obtain ents' c d where
    "update_entities mc (mgr_time_step_ms mgr) ?srvs (List.enumerate 0 (entities mgr)) ed
       (ho_count mgr) (ho_delay mgr) = Inr (ents', c, d)"
    by blast
  then show ?thesis by (simp add: update_all_def Let_def)
qed

lemma update_all_totals:
  assumes "update_all mc mgr srvs sd ed = Inr ((c, d), mgr', srvs')"
  shows "c = ho_count mgr + int (handovers_this_round mc mgr srvs sd ed) \<and>
         d = ho_delay mgr + int (handovers_this_round mc mgr srvs sd ed) * handover_latency_ms mc \<and>
         ho_count mgr' = c \<and> ho_delay mgr' = d"
proof -
  let ?srvs = "map (\<lambda>(i, srv). move_server (mgr_time_step_ms mgr) (sd i) srv)
                 (List.enumerate 0 srvs)"
  from assms obtain ents' where
    u: "update_entities mc (mgr_time_step_ms mgr) ?srvs (List.enumerate 0 (entities mgr)) ed
          (ho_count mgr) (ho_delay mgr) = Inr (ents', c, d)"
    and m: "mgr' = mgr\<lparr>entities := ents', ho_count := c, ho_delay := d\<rparr>"
    by (auto simp: update_all_def Let_def split: sum.splits)
  from update_entities_totals [OF u] m show ?thesis
    by (simp add: handovers_this_round_def Let_def)
qed

lemma handovers_at_B:
  "handovers_this_round MOBILITY_CONFIG (manager_of (device_at_origin (Some 1)))
     [node_A, node_B] sd ed = 1"
  by (simp add: handovers_this_round_def manager_of_def MobilityManager_init_def nodes_rest
        move_origin handover_fires_def update_entity_def pick_at_origin_B' origin_fields
        signal_at_origin MOBILITY_CONFIG_def Let_def)

text \<open>
  \<open>update_all\<close> returns the counters the manager has accumulated since its construction.
  The device at the origin starts attached to node B. The first call hands it over to node A
  and returns \<open>(1, 20)\<close>; in the second call no entity takes the handover branch, and the
  call returns \<open>(1, 20)\<close> again.
\<close>

lemma update_all_repeats_totals:
  "update_all MOBILITY_CONFIG (manager_of (device_at_origin (Some 1))) [node_A, node_B]
       (\<lambda>i. no_draw) (\<lambda>i. no_draw)
     = Inr ((1, 20), (manager_of (device_at_origin (Some 0)))\<lparr>ho_count := 1, ho_delay := 20\<rparr>,
            [node_A, node_B]) \<and>
   handovers_this_round MOBILITY_CONFIG
       ((manager_of (device_at_origin (Some 0)))\<lparr>ho_count := 1, ho_delay := 20\<rparr>)
       [node_A, node_B] (\<lambda>i. no_draw) (\<lambda>i. no_draw) = 0 \<and>
   update_all MOBILITY_CONFIG
       ((manager_of (device_at_origin (Some 0)))\<lparr>ho_count := 1, ho_delay := 20\<rparr>)
       [node_A, node_B] (\<lambda>i. no_draw) (\<lambda>i. no_draw)
     = Inr ((1, 20), (manager_of (device_at_origin (Some 0)))\<lparr>ho_count := 1, ho_delay := 20\<rparr>,
            [node_A, node_B])"
proof (intro conjI)
  show "update_all MOBILITY_CONFIG (manager_of (device_at_origin (Some 1))) [node_A, node_B]
       (\<lambda>i. no_draw) (\<lambda>i. no_draw)
     = Inr ((1, 20), (manager_of (device_at_origin (Some 0)))\<lparr>ho_count := 1, ho_delay := 20\<rparr>,
            [node_A, node_B])"
    by (rule update_all_at_B)
  show "handovers_this_round MOBILITY_CONFIG
       ((manager_of (device_at_origin (Some 0)))\<lparr>ho_count := 1, ho_delay := 20\<rparr>)
       [node_A, node_B] (\<lambda>i. no_draw) (\<lambda>i. no_draw) = 0"
    by (simp add: handovers_this_round_def manager_of_def MobilityManager_init_def nodes_rest
          move_origin handover_fires_def update_entity_def pick_at_origin_A origin_fields Let_def)
  show "update_all MOBILITY_CONFIG
       ((manager_of (device_at_origin (Some 0)))\<lparr>ho_count := 1, ho_delay := 20\<rparr>)
       [node_A, node_B] (\<lambda>i. no_draw) (\<lambda>i. no_draw)
     = Inr ((1, 20), (manager_of (device_at_origin (Some 0)))\<lparr>ho_count := 1, ho_delay := 20\<rparr>,
            [node_A, node_B])"
    by (rule update_all_at_A)
qed

text \<open>
  In general: with at least one node, \<open>update_all\<close> returns, and what it returns are the
  running totals of the manager, that is the handover count before the call plus the number
  of handovers of this round, and the handover delay before the call plus that number times
  the configured handover latency.
\<close>

theorem update_all_running_totals:
  assumes "srvs \<noteq> []"
  shows "\<exists>mgr' srvs'.
           update_all mc mgr srvs sd ed
             = Inr ((ho_count mgr + int (handovers_this_round mc mgr srvs sd ed),
                     ho_delay mgr + int (handovers_this_round mc mgr srvs sd ed)
                                      * handover_latency_ms mc),
                    mgr', srvs') \<and>
           ho_count mgr' = ho_count mgr + int (handovers_this_round mc mgr srvs sd ed) \<and>
           ho_delay mgr' = ho_delay mgr + int (handovers_this_round mc mgr srvs sd ed)
                                            * handover_latency_ms mc"
proof -
  from update_all_returns [OF assms] obtain c d mgr' srvs' where
    u: "update_all mc mgr srvs sd ed = Inr ((c, d), mgr', srvs')" by blast
  from update_all_totals [OF u] u show ?thesis by blast
qed

theorem update_all_running_totals_witness:
  "[node_A, node_B] \<noteq> [] \<and>
   (\<exists>mgr' srvs'.
      update_all MOBILITY_CONFIG (manager_of (device_at_origin (Some 1))) [node_A, node_B]
         (\<lambda>i. no_draw) (\<lambda>i. no_draw) = Inr ((1, 20), mgr', srvs') \<and>
      ho_count mgr' = 1 \<and> ho_delay mgr' = 20)"
proof -
  have h: "[node_A, node_B] \<noteq> []" by simp
  have z: "ho_count (manager_of (device_at_origin (Some 1))) = 0"
    "ho_delay (manager_of (device_at_origin (Some 1))) = 0"
    "handover_latency_ms MOBILITY_CONFIG = 20"
    by (simp_all add: manager_of_def MobilityManager_init_def MOBILITY_CONFIG_def)
  from update_all_running_totals [OF h, of MOBILITY_CONFIG
      "manager_of (device_at_origin (Some 1))" "\<lambda>i. no_draw" "\<lambda>i. no_draw"]
  show ?thesis unfolding z handovers_at_B by simp
qed

subsection \<open>Handover delay and the clock\<close>

lemma node_fields:
  "name node_A = ''Edge_1''" "latency node_A = 5" "available_cpu node_A = 280000"
  "available_storage node_A = 800000" "available_memory node_A = 300000"
  "running_tasks node_A = []"
  "name node_B = ''Edge_2''" "latency node_B = 5" "available_cpu node_B = 280000"
  "available_storage node_B = 800000" "available_memory node_B = 300000"
  "running_tasks node_B = []"
  by (simp_all add: node_A_def node_B_def Server_init_def)

lemma update_all_at_B':
  "update_all MOBILITY_CONFIG (manager_of (device_at_origin (Some (Suc 0)))) [node_A, node_B] sd ed
   = Inr ((1, 20), (manager_of (device_at_origin (Some 0)))\<lparr>ho_count := 1, ho_delay := 20\<rparr>,
          [node_A, node_B])"
  using update_all_at_B [of sd ed] by simp

lemma release_nothing: "running_tasks s = [] \<Longrightarrow> release_completed_tasks s now = s"
  by (simp add: release_completed_tasks_def)

lemma tagged_task_fields:
  "cpu_demand (task_1\<lparr>entity_id := Some 0\<rparr>) = 10"
  "storage_demand (task_1\<lparr>entity_id := Some 0\<rparr>) = 10"
  "memory_demand (task_1\<lparr>entity_id := Some 0\<rparr>) = 10"
  "data_size_kb (task_1\<lparr>entity_id := Some 0\<rparr>) = 10"
  "task_id (task_1\<lparr>entity_id := Some 0\<rparr>) = ''task-1''"
  by (simp_all add: task_1_fields)

lemma node_A1_fields:
  "available_cpu node_A1 = 279990" "available_storage node_A1 = 799990"
  "available_memory node_A1 = 299990" "latency node_A1 = 5" "name node_A1 = ''Edge_1''"
  "running_tasks node_A1 = [(''task-1'', (10, 10, 10, 25))]"
  by (simp_all add: node_A1_def allocate_def can_allocate_def node_fields Let_def)

lemma manager_of_entities:
  "entities (manager_of e) = [e]"
  "entities ((manager_of e)\<lparr>ho_count := c, ho_delay := d\<rparr>) = [e]"
  by (simp_all add: manager_of_def MobilityManager_init_def)

lemma node_A1_capacities:
  "cpu_capacity node_A1 = 280000" "memory_capacity node_A1 = 300000"
  "storage_capacity node_A1 = 800000" "bandwidth node_A1 = 164000"
  by (simp_all add: node_A1_def allocate_def can_allocate_def node_fields Let_def
        node_A_def Server_init_def)

lemma round_1:
  "run_round one_device MOBILITY_CONFIG sim_two_nodes 1 (draws_of_round 1)
     = Inr (sim_two_nodes\<lparr>current_time := 21,
              servers := [node_A1\<lparr>available_cpu := 279980, available_storage := 799980,
                            available_memory := 299980\<rparr>, node_B],
              tasks := [complete (task_1\<lparr>entity_id := Some 0\<rparr>) 20 25],
              sim_mobility :=
                (manager_of (device_at_origin (Some 0)))\<lparr>ho_count := 1, ho_delay := 20\<rparr>\<rparr>, 0)"
proof -
  have s: "schedule one_device [task_1\<lparr>entity_id := Some 0\<rparr>] [node_A, node_B] 20
             = ([(task_1\<lparr>entity_id := Some 0\<rparr>, Some 0)], [node_A1, node_B])"
    by (simp add: schedule_task_def try_tier_def eligible_def can_allocate_def load_key_def
        tagged_task_fields node_fields node_A1_def Let_def split_beta)
  have a: "apply_assignments 20 [(task_1\<lparr>entity_id := Some 0\<rparr>, Some 0)] [node_A1, node_B]
     = Inr ([(complete (task_1\<lparr>entity_id := Some 0\<rparr>) 20 25, Some 0)],
            [node_A1\<lparr>available_cpu := 279980, available_storage := 799980,
                            available_memory := 299980\<rparr>, node_B])"
    by (simp add: node_A1_fields tagged_task_fields Let_def)
  have na: "\<not> is_assigned (complete (task_1\<lparr>entity_id := Some 0\<rparr>) 20 25)"
    by (simp add: is_assigned_def complete_def task_1_def Task_init_def)
  have m: "report_metrics [device_at_origin (Some 0)]
             [(complete (task_1\<lparr>entity_id := Some 0\<rparr>) 20 25, Some 0)]
             [node_A1\<lparr>available_cpu := 279980, available_storage := 799980,
                            available_memory := 299980\<rparr>, node_B] = None"
    by (intro report_metrics_single [where j = 0])
       (simp_all add: complete_def task_1_def Task_init_def node_A1_fields node_A1_capacities
          transmission_delay_edge)
  show ?thesis
    by (simp add: run_round_def sim_two_nodes_def update_all_at_B' draws_of_round_def
          release_nothing node_fields generate_one_device s a na m manager_of_entities
          del: schedule.simps apply_assignments.simps)
qed


lemma update_all_stays_at_A:
  assumes "pos_x sA = 0" "pos_y sA = 1" "mobility sA = None"
    and "pos_x sB = 0" "pos_y sB = 100" "mobility sB = None"
  shows "update_all MOBILITY_CONFIG
           ((manager_of (device_at_origin (Some 0)))\<lparr>ho_count := c, ho_delay := d\<rparr>)
           [sA, sB] sd ed
         = Inr ((c, d), (manager_of (device_at_origin (Some 0)))\<lparr>ho_count := c, ho_delay := d\<rparr>,
                [sA, sB])"
proof -
  let ?e = "device_at_origin (Some 0)"
  have sg: "signal_strength ?e sA = 0" "signal_strength ?e sB = - 40"
    using assms
    by (simp_all add: signal_strength_def device_at_origin_def MobileEntity_init_def
          hypot_zero_left log_10_100)
  have mv: "move_server dt dr sA = sA" "move_server dt dr sB = sB" for dt dr
    using assms by (simp_all add: move_server_def)
  have pk: "pick_best_bs ?e [sA, sB] = Inr 0"
    by (simp add: pick_best_bs_def best_server_def origin_fields sg)
  show ?thesis
    by (simp add: update_all_def manager_of_def MobilityManager_init_def mv move_origin
          update_entity_def pk origin_fields)
qed

lemma node_positions:
  "pos_x node_A1 = 0" "pos_y node_A1 = 1" "mobility node_A1 = None"
  "pos_x node_B = 0" "pos_y node_B = 100" "mobility node_B = None"
  by (simp_all add: node_A1_def allocate_def can_allocate_def node_fields Let_def
        node_A_def node_B_def Server_init_def)

lemma generate_round_2:
  "map (\<lambda>(idx, t). t\<lparr>entity_id := Some idx\<rparr>)
     (List.enumerate 0 (generate_tasks one_device (WorkloadGenerator_init one_device) 2
                          (\<lambda>i. ''task-2'') (\<lambda>i. 1)))
   = [(Task_init one_device ''task-2'' 10 10 10 10 None 1)\<lparr>entity_id := Some 0\<rparr>]"
  by (simp add: generate_tasks_def WorkloadGenerator_init_def one_device_def Let_def)

lemma two_rounds_clock:
  "(case run_rounds one_device MOBILITY_CONFIG draws_of_round [1, 2] sim_two_nodes of
      Inl err \<Rightarrow> False
    | Inr sim2 \<Rightarrow>
        current_time sim2 = 42 \<and>
        ho_count (sim_mobility sim2) = 1 \<and> ho_delay (sim_mobility sim2) = 20)"
proof -
  let ?A = "node_A1\<lparr>available_cpu := 279980, available_storage := 799980,
                     available_memory := 299980\<rparr>"
  let ?A' = "node_A1\<lparr>available_cpu := 279990, available_storage := 799990,
                     available_memory := 299990, running_tasks := []\<rparr>"
  let ?t = "(Task_init one_device ''task-2'' 10 10 10 10 None 1)\<lparr>entity_id := Some 0\<rparr>"
  let ?m = "(manager_of (device_at_origin (Some 0)))\<lparr>ho_count := 1, ho_delay := 20\<rparr>"
  have r: "release_completed_tasks ?A 41 = ?A'"
    by (simp add: release_completed_tasks_def node_A1_fields is_due_def pop_task_def)
  have t: "cpu_demand ?t = 10" "storage_demand ?t = 10" "memory_demand ?t = 10"
    "data_size_kb ?t = 10" "task_id ?t = ''task-2''"
    by (simp_all add: Task_init_def one_device_def)
  have s: "schedule one_device [?t] [?A', node_B] 41
             = ([(?t, Some 0)],
                [snd (allocate one_device ?A' ''task-2'' 10 10 10 46), node_B])"
    by (simp add: schedule_task_def try_tier_def eligible_def can_allocate_def load_key_def
        t node_fields node_A1_fields Let_def split_beta)
  let ?A2 = "snd (allocate one_device ?A' ''task-2'' 10 10 10 46)"
  have A2: "available_cpu ?A2 = 279980" "available_storage ?A2 = 799980"
    "available_memory ?A2 = 299980" "latency ?A2 = 5" "name ?A2 = ''Edge_1''"
    "cpu_capacity ?A2 = 280000" "memory_capacity ?A2 = 300000"
    "storage_capacity ?A2 = 800000" "bandwidth ?A2 = 164000"
    by (simp_all add: allocate_def can_allocate_def node_A1_fields node_A1_capacities Let_def)
  have a: "apply_assignments 41 [(?t, Some 0)] [?A2, node_B]
     = Inr ([(complete ?t 41 46, Some 0)],
            [?A2\<lparr>available_cpu := 279970, available_storage := 799970,
                   available_memory := 299970\<rparr>, node_B])"
    by (simp add: A2 t Let_def)
  have m: "report_metrics [device_at_origin (Some 0)] [(complete ?t 41 46, Some 0)]
             [?A2\<lparr>available_cpu := 279970, available_storage := 799970,
                   available_memory := 299970\<rparr>, node_B] = None"
    by (intro report_metrics_single [where j = 0])
       (simp_all add: complete_def t A2 transmission_delay_edge)
  have r2: "\<exists>sim2. run_round one_device MOBILITY_CONFIG
              (sim_two_nodes\<lparr>current_time := 21, servers := [?A, node_B],
                 tasks := [complete (task_1\<lparr>entity_id := Some 0\<rparr>) 20 25],
                 sim_mobility := ?m\<rparr>) 2 (draws_of_round 2) = Inr (sim2, 0) \<and>
            current_time sim2 = 42 \<and> sim_mobility sim2 = ?m"
    by (simp add: run_round_def sim_two_nodes_def update_all_stays_at_A node_positions
          draws_of_round_def r release_nothing node_fields generate_round_2 s a m
          manager_of_entities
          del: schedule.simps apply_assignments.simps)
  then obtain sim2 where "run_round one_device MOBILITY_CONFIG
              (sim_two_nodes\<lparr>current_time := 21, servers := [?A, node_B],
                 tasks := [complete (task_1\<lparr>entity_id := Some 0\<rparr>) 20 25],
                 sim_mobility := ?m\<rparr>) 2 (draws_of_round 2) = Inr (sim2, 0)"
     "current_time sim2 = 42" "sim_mobility sim2 = ?m"
    by blast
  then show ?thesis
    by (simp add: round_1 manager_of_def MobilityManager_init_def)
qed

text \<open>
  C2. \<open>update_all\<close> does not return the handovers and the delay of the round, and the loop
  charges a handover to the clock more than once. Two rounds on the two nodes: the only
  handover happens in round 1 and costs 20; round 2 has no handover, yet \<open>update_all\<close>
  returns \<open>(1, 20)\<close> again and the loop adds 20 again: after two rounds of one time unit each
  the clock reads 42, with one handover and 20 of handover delay on the manager's counters.
\<close>

theorem handover_delay_charged_again:
  "handovers_this_round MOBILITY_CONFIG
       ((manager_of (device_at_origin (Some 0)))\<lparr>ho_count := 1, ho_delay := 20\<rparr>)
       [node_A, node_B] (\<lambda>i. no_draw) (\<lambda>i. no_draw) = 0 \<and>
   update_all MOBILITY_CONFIG
       ((manager_of (device_at_origin (Some 0)))\<lparr>ho_count := 1, ho_delay := 20\<rparr>)
       [node_A, node_B] (\<lambda>i. no_draw) (\<lambda>i. no_draw)
     = Inr ((1, 20), (manager_of (device_at_origin (Some 0)))\<lparr>ho_count := 1, ho_delay := 20\<rparr>,
            [node_A, node_B]) \<and>
   (case run_rounds one_device MOBILITY_CONFIG draws_of_round [1, 2] sim_two_nodes of
      Inl err \<Rightarrow> False
    | Inr sim2 \<Rightarrow>
        current_time sim2 = 42 \<and>
        ho_count (sim_mobility sim2) = 1 \<and> ho_delay (sim_mobility sim2) = 20)"
proof (intro conjI)
  show "handovers_this_round MOBILITY_CONFIG
       ((manager_of (device_at_origin (Some 0)))\<lparr>ho_count := 1, ho_delay := 20\<rparr>)
       [node_A, node_B] (\<lambda>i. no_draw) (\<lambda>i. no_draw) = 0"
    by (rule update_all_repeats_totals [THEN conjunct2, THEN conjunct1])
  show "update_all MOBILITY_CONFIG
       ((manager_of (device_at_origin (Some 0)))\<lparr>ho_count := 1, ho_delay := 20\<rparr>)
       [node_A, node_B] (\<lambda>i. no_draw) (\<lambda>i. no_draw)
     = Inr ((1, 20), (manager_of (device_at_origin (Some 0)))\<lparr>ho_count := 1, ho_delay := 20\<rparr>,
            [node_A, node_B])"
    by (rule update_all_at_A)
  show "case run_rounds one_device MOBILITY_CONFIG draws_of_round [1, 2] sim_two_nodes of
      Inl err \<Rightarrow> False
    | Inr sim2 \<Rightarrow>
        current_time sim2 = 42 \<and>
        ho_count (sim_mobility sim2) = 1 \<and> ho_delay (sim_mobility sim2) = 20"
    by (rule two_rounds_clock)
qed

end
